theory Spec2Isabelle
  imports Main "HOL-Library.Sublist"
begin

section \<open>Job Application Tracker: a shallow embedding of \<^verbatim>\<open>app.py\<close>\<close>

text \<open>
  The program is a single Streamlit script. Each user interaction runs the script once
  from the top with at most one button reporting a click; \<^verbatim>\<open>st.rerun()\<close> abandons the
  current run and starts another one with no click. The embedding follows that shape:
  the session dictionary and the files under \<^verbatim>\<open>data/\<close> are an explicit state, a script
  run is a function from the widget inputs and the state to the new state and what the
  page shows.

  Conventions. Strings are \<^typ>\<open>string\<close>: a \<^typ>\<open>char\<close> stands for one Python character
  with a code point below 256; text beyond that range is not represented. A JSON file is
  represented by the value \<^verbatim>\<open>json.load\<close> returns from it, not by its text.

  What the script leaves to its environment is a parameter of the model, never a fixed
  choice: the SHA-256 digest, and a \<open>platform\<close> that says which file a file name below
  \<^verbatim>\<open>data/\<close> denotes and whether it can be written, which dates the date parser of the
  installed library accepts, and what the regular-expression library makes of a pattern.
  Statements hold for every platform unless they name one.
\<close>

subsection \<open>Constants\<close>

definition STATUS_OPTIONS :: "string list" where
  "STATUS_OPTIONS =
     [''Applied'', ''Interview Scheduled'', ''Interview Done'',
      ''Offer Received'', ''Rejected'', ''Withdrawn'']"

subsection \<open>Calendar dates and their text form\<close>

text \<open>
  A \<^verbatim>\<open>datetime.date\<close> is a year, a month and a day. Python only builds dates that
  satisfy \<open>valid_date\<close> (years 1 to 9999, Gregorian month lengths).
\<close>

record date =
  year :: nat
  month :: nat
  day :: nat

definition is_leap :: "nat \<Rightarrow> bool" where
  "is_leap y = (y mod 4 = 0 \<and> (y mod 100 \<noteq> 0 \<or> y mod 400 = 0))"

definition days_in_month :: "nat \<Rightarrow> nat \<Rightarrow> nat" where
  "days_in_month y m =
     (if m = 2 then (if is_leap y then 29 else 28)
      else if m = 4 \<or> m = 6 \<or> m = 9 \<or> m = 11 then 30 else 31)"

definition valid_date :: "date \<Rightarrow> bool" where
  "valid_date d =
     (1 \<le> year d \<and> year d \<le> 9999 \<and> 1 \<le> month d \<and> month d \<le> 12 \<and>
      1 \<le> day d \<and> day d \<le> days_in_month (year d) (month d))"

definition digit_char :: "nat \<Rightarrow> char" where
  "digit_char n = char_of (48 + n)"

definition is_digit :: "char \<Rightarrow> bool" where
  "is_digit c = (48 \<le> (of_char c :: nat) \<and> (of_char c :: nat) \<le> 57)"

definition digit_val :: "char \<Rightarrow> nat" where
  "digit_val c = of_char c - 48"

text \<open>Decimal text of a natural number, as \<^verbatim>\<open>"%d"\<close> prints it.\<close>

fun dec :: "nat \<Rightarrow> string" where
  "dec n = (if n < 10 then [digit_char n] else dec (n div 10) @ [digit_char (n mod 10)])"

text \<open>\<^verbatim>\<open>"%0wd"\<close>: pad with zeros on the left up to width \<open>w\<close>, never truncate.\<close>

definition zero_padded :: "nat \<Rightarrow> nat \<Rightarrow> string" where
  "zero_padded w n = replicate (w - length (dec n)) (CHR ''0'') @ dec n"

text \<open>
  \<^verbatim>\<open>str(d)\<close> of a date, which is what \<^verbatim>\<open>astype(str)\<close> writes in \<^verbatim>\<open>save_data\<close>:
  \<^verbatim>\<open>"%04d-%02d-%02d"\<close>.
\<close>

definition date_str :: "date \<Rightarrow> string" where
  "date_str d =
     zero_padded 4 (year d) @ ''-'' @ zero_padded 2 (month d) @ ''-'' @ zero_padded 2 (day d)"

definition digits_val :: "string \<Rightarrow> nat" where
  "digits_val s = foldl (\<lambda>a c. 10 * a + digit_val c) 0 s"

text \<open>Text of the form \<^verbatim>\<open>DDDD-DD-DD\<close>, and the three numbers it spells.\<close>

definition is_iso_form :: "string \<Rightarrow> bool" where
  "is_iso_form s =
     (length s = 10 \<and> s ! 4 = CHR ''-'' \<and> s ! 7 = CHR ''-'' \<and>
      list_all is_digit (take 4 s) \<and> list_all is_digit (take 2 (drop 5 s)) \<and>
      list_all is_digit (drop 8 s))"

definition iso_fields :: "string \<Rightarrow> date" where
  "iso_fields s =
     \<lparr>year = digits_val (take 4 s), month = digits_val (take 2 (drop 5 s)),
      day = digits_val (drop 8 s)\<rparr>"

subsection \<open>Application records and the data frame\<close>

text \<open>
  A row of the data frame has the five columns the script creates. The session's data
  frame \<^verbatim>\<open>jobs_df\<close> is the list of its rows in index order.
\<close>

record application =
  company_name :: string
  job_title :: string
  status :: string
  applied_date :: date
  package :: string

type_synonym dataframe = "application list"

text \<open>A row as it stands in the JSON file: the date is text.\<close>

record stored_application =
  stored_company_name :: string
  stored_job_title :: string
  stored_status :: string
  stored_applied_date :: string
  stored_package :: string

subsection \<open>Errors and exceptions\<close>

text \<open>
  The messages the script reports with \<^verbatim>\<open>st.error\<close>, named after the specification's
  taxonomy where it has a name for them:
  \<^item> \<open>MissingCredentials\<close>: ``Please enter both username and password'';
  \<^item> \<open>InvalidCredentials\<close>: ``Invalid username or password'';
  \<^item> \<open>IncompleteInput\<close>: ``Please fill in all fields'';
  \<^item> \<open>PasswordMismatch\<close>: ``Passwords do not match'';
  \<^item> \<open>WeakPassword\<close>: ``Password must be at least 4 characters'';
  \<^item> \<open>DuplicateUsername\<close>: ``Username already exists'';
  \<^item> \<open>MissingRequiredField\<close>: ``Please fill in Company Name and Job Title''.
\<close>

datatype error =
  MissingCredentials | InvalidCredentials | IncompleteInput | PasswordMismatch |
  WeakPassword | DuplicateUsername | MissingRequiredField

text \<open>
  Python exceptions that end a script run. None is caught anywhere in the script, so what
  the run assigned to the session before the exception stays assigned.
  \<^item> \<open>KeyError\<close>: a dictionary has no such key;
  \<^item> \<open>DateParseError\<close>: \<^verbatim>\<open>pd.to_datetime\<close> raised;
  \<^item> \<open>OpenFailed\<close>: \<^verbatim>\<open>open(data_file, "w")\<close> raised;
  \<^item> \<open>ReError\<close>: the search text is not a regular expression.
\<close>

datatype exn = KeyError | DateParseError | OpenFailed | ReError

subsection \<open>The platform\<close>

text \<open>
  \<^item> \<open>os_locate name\<close>: the file that the path \<^verbatim>\<open>DATA_DIR / name\<close> denotes, or \<open>None\<close> when
    it denotes none that could exist (a directory on the way is missing, the name is not
    acceptable). Two names may denote one file: \<^verbatim>\<open>pathlib\<close> drops empty and \<^verbatim>\<open>.\<close> parts,
    and the file system may ignore case or follow \<^verbatim>\<open>..\<close> and links.
  \<^item> \<open>os_writable file\<close>: whether opening that file for writing succeeds.
  \<^item> \<open>pd_timestamp_range d\<close>: whether the library's timestamp type holds the date \<open>d\<close>;
    \<^verbatim>\<open>pd.to_datetime\<close> raises on a date outside it.
  \<^item> \<open>pd_parse_other s\<close>: what \<^verbatim>\<open>pd.to_datetime\<close> makes of text that is not of the form
    \<^verbatim>\<open>YYYY-MM-DD\<close>: a date, or \<open>None\<close> when it raises. (Text read as ``not a time'' gives
    a cell without a date, which the record type does not hold; such files are not
    covered.)
  \<^item> \<open>re_library pat ignorecase\<close>: what \<^verbatim>\<open>re.compile\<close> makes of a pattern that uses
    operators beyond the ones represented below: \<open>None\<close> when it raises, else the test
    \<^verbatim>\<open>re.search\<close> performs on a cell.
\<close>

record platform =
  os_locate :: "string \<Rightarrow> string list option"
  os_writable :: "string list \<Rightarrow> bool"
  pd_timestamp_range :: "date \<Rightarrow> bool"
  pd_parse_other :: "string \<Rightarrow> date option"
  re_library :: "string \<Rightarrow> bool \<Rightarrow> (string \<Rightarrow> bool) option"

text \<open>
  \<^verbatim>\<open>pd.to_datetime(...).dt.date\<close> on one cell: \<open>None\<close> when it raises. Text of the form
  \<^verbatim>\<open>YYYY-MM-DD\<close> is read as that calendar date when there is one and the timestamp type
  holds it.
\<close>

definition to_datetime_date :: "platform \<Rightarrow> string \<Rightarrow> date option" where
  "to_datetime_date pf s =
     (if is_iso_form s then
        (let d = iso_fields s
         in if valid_date d \<and> pd_timestamp_range pf d then Some d else None)
      else pd_parse_other pf s)"

subsection \<open>The files under \<^verbatim>\<open>data/\<close>\<close>

text \<open>
  \<^verbatim>\<open>users.json\<close> holds a JSON object from usernames to objects with string values;
  \<^verbatim>\<open>None\<close> stands for a file that does not exist. The per-user files are a map from
  files, as \<open>os_locate\<close> names them, to the list of rows in the file.
\<close>

type_synonym user_record = "string \<rightharpoonup> string"

record file_store =
  users_file :: "(string \<rightharpoonup> user_record) option"
  data_files :: "string list \<rightharpoonup> stored_application list"

definition load_users :: "file_store \<Rightarrow> (string \<rightharpoonup> user_record)" where
  "load_users fs = (case users_file fs of Some users \<Rightarrow> users | None \<Rightarrow> Map.empty)"

definition save_users :: "file_store \<Rightarrow> (string \<rightharpoonup> user_record) \<Rightarrow> file_store" where
  "save_users fs users = fs\<lparr>users_file := Some users\<rparr>"

text \<open>The name of a user's file below \<^verbatim>\<open>DATA_DIR\<close>: the f-string of line 102.\<close>

definition get_user_data_file :: "string \<Rightarrow> string" where
  "get_user_data_file username = ''jobs_'' @ username @ ''.json''"

definition parse_row :: "platform \<Rightarrow> stored_application \<Rightarrow> application option" where
  "parse_row pf r =
     (case to_datetime_date pf (stored_applied_date r) of
        None \<Rightarrow> None
      | Some d \<Rightarrow>
          Some \<lparr>company_name = stored_company_name r, job_title = stored_job_title r,
                status = stored_status r, applied_date = d, package = stored_package r\<rparr>)"

fun parse_rows :: "platform \<Rightarrow> stored_application list \<Rightarrow> dataframe option" where
  "parse_rows pf [] = Some []"
| "parse_rows pf (r # rs) =
     (case parse_row pf r of
        None \<Rightarrow> None
      | Some a \<Rightarrow> (case parse_rows pf rs of None \<Rightarrow> None | Some as \<Rightarrow> Some (a # as)))"

text \<open>
  \<^verbatim>\<open>load_data\<close>: \<^verbatim>\<open>data_file.exists()\<close> is false when the path denotes no file or the
  file is not there; no file, or a file holding the empty list, gives the empty frame;
  otherwise every date cell is parsed, and a cell that does not parse raises.
\<close>

definition load_data :: "platform \<Rightarrow> file_store \<Rightarrow> string \<Rightarrow> exn + dataframe" where
  "load_data pf fs username =
     (case os_locate pf (get_user_data_file username) of
        None \<Rightarrow> Inr []
      | Some file \<Rightarrow>
          (case data_files fs file of
             None \<Rightarrow> Inr []
           | Some data \<Rightarrow>
               (if data \<noteq> [] then
                  (case parse_rows pf data of None \<Rightarrow> Inl DateParseError | Some df \<Rightarrow> Inr df)
                else Inr [])))"

definition store_row :: "application \<Rightarrow> stored_application" where
  "store_row a =
     \<lparr>stored_company_name = company_name a, stored_job_title = job_title a,
      stored_status = status a, stored_applied_date = date_str (applied_date a),
      stored_package = package a\<rparr>"

text \<open>
  \<^verbatim>\<open>save_data\<close>: \<^verbatim>\<open>open(data_file, "w")\<close> raises when the path denotes no file or the
  file cannot be written; otherwise the whole file is rewritten with the rows of the
  frame.
\<close>

definition save_data :: "platform \<Rightarrow> file_store \<Rightarrow> string \<Rightarrow> dataframe \<Rightarrow> exn + file_store" where
  "save_data pf fs username df =
     (case os_locate pf (get_user_data_file username) of
        None \<Rightarrow> Inl OpenFailed
      | Some file \<Rightarrow>
          if os_writable pf file
          then Inr (fs\<lparr>data_files := (data_files fs)(file \<mapsto> map store_row df)\<rparr>)
          else Inl OpenFailed)"

subsection \<open>Password digest\<close>

text \<open>
  \<^verbatim>\<open>hash_password\<close> is \<^verbatim>\<open>hashlib.sha256(password.encode()).hexdigest()\<close>. The digest is
  library code; it is the parameter \<open>sha256_hexdigest\<close> of every definition that hashes a password,
  and every statement below holds for any function put in its place.
\<close>

definition hash_password :: "(string \<Rightarrow> string) \<Rightarrow> string \<Rightarrow> string" where
  "hash_password sha256_hexdigest password = sha256_hexdigest password"

subsection \<open>Regular-expression search\<close>

text \<open>
  \<^verbatim>\<open>Series.str.contains(pat, case=..., na=False)\<close> is called without \<^verbatim>\<open>regex=False\<close>, so
  \<open>pat\<close> is compiled as a regular expression and each cell is tested with
  \<^verbatim>\<open>re.search\<close>, with \<^verbatim>\<open>re.IGNORECASE\<close> when \<^verbatim>\<open>case=False\<close>. Two operators are
  represented here: an ordinary character matches itself, and a dot matches any character
  but a newline. A pattern that uses any other special character is handed to
  \<open>re_library\<close> of the platform.
\<close>

datatype atom = Lit char | AnyChar

definition special_chars :: "char list" where
  "special_chars = ''.^$*+?{}[]|()'' @ [CHR 0x5C]"

fun re_compile :: "string \<Rightarrow> atom list option" where
  "re_compile [] = Some []"
| "re_compile (c # cs) =
     (if c = CHR ''.'' then map_option (Cons AnyChar) (re_compile cs)
      else if c \<in> set special_chars then None
      else map_option (Cons (Lit c)) (re_compile cs))"

text \<open>
  Lower case of a character below 256: the letters \<^verbatim>\<open>A\<close> to \<^verbatim>\<open>Z\<close> and the accented
  capitals 192 to 222 (but the multiplication sign, 215) are 32 below their small letter.
\<close>

definition lower_char :: "char \<Rightarrow> char" where
  "lower_char c =
     (let n = (of_char c :: nat)
      in if (65 \<le> n \<and> n \<le> 90) \<or> (192 \<le> n \<and> n \<le> 222 \<and> n \<noteq> 215)
         then char_of (n + 32) else c)"

definition lower :: "string \<Rightarrow> string" where
  "lower s = map lower_char s"

fun atom_matches :: "bool \<Rightarrow> atom \<Rightarrow> char \<Rightarrow> bool" where
  "atom_matches ignorecase AnyChar c = (c \<noteq> CHR 0x0A)"
| "atom_matches ignorecase (Lit l) c = (if ignorecase then lower_char l = lower_char c else l = c)"

fun match_here :: "bool \<Rightarrow> atom list \<Rightarrow> string \<Rightarrow> bool" where
  "match_here ignorecase [] s = True"
| "match_here ignorecase (a # as) [] = False"
| "match_here ignorecase (a # as) (c # cs) =
     (atom_matches ignorecase a c \<and> match_here ignorecase as cs)"

fun re_search :: "bool \<Rightarrow> atom list \<Rightarrow> string \<Rightarrow> bool" where
  "re_search ignorecase rx [] = match_here ignorecase rx []"
| "re_search ignorecase rx (c # cs) =
     (match_here ignorecase rx (c # cs) \<or> re_search ignorecase rx cs)"

text \<open>\<^verbatim>\<open>re.compile(pat, flags)\<close> followed by \<^verbatim>\<open>.search\<close>: \<open>None\<close> when compiling raises.\<close>

definition compile_pattern :: "platform \<Rightarrow> string \<Rightarrow> bool \<Rightarrow> (string \<Rightarrow> bool) option" where
  "compile_pattern pf pat ignorecase =
     (case re_compile pat of
        Some rx \<Rightarrow> Some (re_search ignorecase rx)
      | None \<Rightarrow> re_library pf pat ignorecase)"

text \<open>
  The column operation: the pattern is compiled once, before any cell is looked at, and
  each cell gives one truth value.
\<close>

definition str_contains :: "platform \<Rightarrow> string list \<Rightarrow> string \<Rightarrow> bool \<Rightarrow> exn + bool list" where
  "str_contains pf series pat case_sensitive =
     (case compile_pattern pf pat (\<not> case_sensitive) of
        None \<Rightarrow> Inl ReError
      | Some found \<Rightarrow> Inr (map found series))"

text \<open>\<^verbatim>\<open>df[mask]\<close>: the rows whose mask entry is true, in order.\<close>

definition boolean_index :: "'a list \<Rightarrow> bool list \<Rightarrow> 'a list" where
  "boolean_index df row_mask = map fst (filter snd (zip df row_mask))"

subsection \<open>Filters and statistics of the main page\<close>

text \<open>Lines 270 to 281 of the script: the search box, then the status selector.\<close>

definition apply_filters :: "platform \<Rightarrow> dataframe \<Rightarrow> string \<Rightarrow> string \<Rightarrow> exn + dataframe" where
  "apply_filters pf df search_query status_filter =
     (case
        (if search_query \<noteq> [] then
           (case str_contains pf (map company_name df) search_query False of
              Inl e \<Rightarrow> Inl e
            | Inr m1 \<Rightarrow>
                (case str_contains pf (map job_title df) search_query False of
                   Inl e \<Rightarrow> Inl e
                 | Inr m2 \<Rightarrow> Inr (boolean_index df (map2 (\<or>) m1 m2))))
         else Inr df)
      of
        Inl e \<Rightarrow> Inl e
      | Inr filtered_df \<Rightarrow>
          Inr (if status_filter \<noteq> ''All''
               then boolean_index filtered_df (map (\<lambda>r. status r = status_filter) filtered_df)
               else filtered_df))"

record stats =
  total_apps :: nat
  interview_count :: nat
  offers :: nat
  pending :: nat

text \<open>Lines 285 to 299: the four metrics, each computed from \<^verbatim>\<open>st.session_state.jobs_df\<close>.\<close>

definition display_statistics :: "platform \<Rightarrow> dataframe \<Rightarrow> exn + stats" where
  "display_statistics pf df =
     (case str_contains pf (map status df) ''Interview'' True of
        Inl e \<Rightarrow> Inl e
      | Inr m \<Rightarrow>
          Inr \<lparr>total_apps = length df,
               interview_count = length (boolean_index df m),
               offers = length (boolean_index df (map (\<lambda>r. status r = ''Offer Received'') df)),
               pending = length (boolean_index df (map (\<lambda>r. status r = ''Applied'') df))\<rparr>)"

subsection \<open>Session state, widget inputs and pages\<close>

text \<open>
  \<^verbatim>\<open>st.session_state\<close>. A key that may be missing or hold \<^verbatim>\<open>None\<close> is an option;
  \<open>jobs_df = None\<close> means the key is not in the dictionary. \<open>show_confirm\<close> is read with
  \<^verbatim>\<open>get("show_confirm", False)\<close>, so a missing key is \<open>False\<close>.
\<close>

record session_state =
  logged_in :: bool
  username :: "string option"
  display_name :: "string option"
  jobs_df :: "dataframe option"
  current_user :: "string option"
  show_confirm :: bool

record world =
  session :: session_state
  files :: file_store

definition initial_session :: session_state where
  "initial_session =
     \<lparr>logged_in = False, username = None, display_name = None, jobs_df = None,
      current_user = None, show_confirm = False\<rparr>"

text \<open>
  What the user did to trigger a script run: the form that was submitted or the button
  that was clicked, with the values of that form's fields. \<open>SaveChangesClick\<close> carries the
  frame the data editor returns in that run.
\<close>

datatype event =
  NoClick
| LoginSubmit string string
| RegisterSubmit string string string string
| LogoutClick
| AddSubmit string string string date string
| RefreshClick
| SaveChangesClick dataframe
| ClearAllClick
| YesDeleteClick
| CancelClick

record inputs =
  event :: event
  search_query :: string
  status_filter :: string
  now_isoformat :: string

record view =
  shown :: dataframe
  statistics :: stats
  confirm_dialog :: bool

text \<open>
  How a script run ends: with \<^verbatim>\<open>st.rerun()\<close>, with an uncaught exception, or with a page
  drawn to its end (the login page with its message, if any; the login page after an
  account was created; the main page with the add form's message, if any).
\<close>

datatype outcome =
  Rerun
| Raised exn
| LoginPage "error option"
| AccountCreated
| MainPage "error option" view

subsection \<open>The login page\<close>

text \<open>
  \<^verbatim>\<open>login_page\<close>, lines 144 to 156 (the login form) and 167 to 186 (the registration
  form). \<^verbatim>\<open>username in users and users[username]["password"] == ...\<close> looks the
  password up only for a known user; a record without that key raises \<open>KeyError\<close>.
  \<^verbatim>\<open>users[username].get("display_name", username)\<close> falls back to the username.
\<close>

definition login_submit ::
  "(string \<Rightarrow> string) \<Rightarrow> string \<Rightarrow> string \<Rightarrow> world \<Rightarrow> world \<times> outcome" where
  "login_submit sha256_hexdigest user password w =
     (if user \<noteq> [] \<and> password \<noteq> [] then
        (let users = load_users (files w) in
         case users user of
           None \<Rightarrow> (w, LoginPage (Some InvalidCredentials))
         | Some r \<Rightarrow>
             (case r ''password'' of
                None \<Rightarrow> (w, Raised KeyError)
              | Some h \<Rightarrow>
                  if h = hash_password sha256_hexdigest password then
                    (w\<lparr>session := (session w)
                        \<lparr>logged_in := True,
                         username := Some user,
                         display_name :=
                           Some (case r ''display_name'' of Some d \<Rightarrow> d | None \<Rightarrow> user)\<rparr>\<rparr>,
                     Rerun)
                  else (w, LoginPage (Some InvalidCredentials))))
      else (w, LoginPage (Some MissingCredentials)))"

definition register_submit ::
  "(string \<Rightarrow> string) \<Rightarrow> string \<Rightarrow> string \<Rightarrow> string \<Rightarrow> string \<Rightarrow> string \<Rightarrow> world \<Rightarrow>
   world \<times> outcome" where
  "register_submit sha256_hexdigest new_username new_display_name new_password confirm_password now w =
     (if new_username \<noteq> [] \<and> new_password \<noteq> [] \<and> new_display_name \<noteq> [] then
        (if new_password \<noteq> confirm_password then (w, LoginPage (Some PasswordMismatch))
         else if length new_password < 4 then (w, LoginPage (Some WeakPassword))
         else
           (let users = load_users (files w) in
            if new_username \<in> dom users then (w, LoginPage (Some DuplicateUsername))
            else
              (w\<lparr>files := save_users (files w)
                   (users(new_username \<mapsto>
                      [''password'' \<mapsto> hash_password sha256_hexdigest new_password,
                       ''display_name'' \<mapsto> new_display_name,
                       ''created_at'' \<mapsto> now]))\<rparr>,
               AccountCreated)))
      else (w, LoginPage (Some IncompleteInput)))"

definition login_page :: "(string \<Rightarrow> string) \<Rightarrow> inputs \<Rightarrow> world \<Rightarrow> world \<times> outcome" where
  "login_page sha256_hexdigest inp w =
     (case event inp of
        LoginSubmit user password \<Rightarrow> login_submit sha256_hexdigest user password w
      | RegisterSubmit new_username new_display_name new_password confirm_password \<Rightarrow>
          register_submit sha256_hexdigest new_username new_display_name new_password confirm_password
            (now_isoformat inp) w
      | _ \<Rightarrow> (w, LoginPage None))"

subsection \<open>The main page\<close>

text \<open>Lines 200 to 205: the logout button. \<open>current_user\<close> and \<open>show_confirm\<close> are left.\<close>

definition logout :: "world \<Rightarrow> world" where
  "logout w =
     w\<lparr>session := (session w)
        \<lparr>logged_in := False, username := None, display_name := None, jobs_df := None\<rparr>\<rparr>"

text \<open>
  Lines 209 to 212: the frame is loaded when the session has none or when it was loaded
  for another user.
\<close>

definition initialize_jobs :: "platform \<Rightarrow> string \<Rightarrow> world \<Rightarrow> exn + world" where
  "initialize_jobs pf user w =
     (if jobs_df (session w) = None \<or> current_user (session w) \<noteq> username (session w) then
        (case load_data pf (files w) user of
           Inl e \<Rightarrow> Inl e
         | Inr df \<Rightarrow>
             Inr (w\<lparr>session := (session w)
                      \<lparr>jobs_df := Some df, current_user := username (session w)\<rparr>\<rparr>))
      else Inr w)"

text \<open>
  The three places that assign \<^verbatim>\<open>st.session_state.jobs_df\<close> and call \<^verbatim>\<open>save_data\<close>
  on the next line: lines 236 and 237 (add), 353 and 354 (save changes), 368 and 369
  (clear). The frame is assigned first; when \<^verbatim>\<open>save_data\<close> raises, the run ends there
  with the frame assigned and the file as it was.
\<close>

definition set_and_save :: "platform \<Rightarrow> string \<Rightarrow> dataframe \<Rightarrow> world \<Rightarrow> world \<times> outcome" where
  "set_and_save pf user df w =
     (let w1 = w\<lparr>session := (session w)\<lparr>jobs_df := Some df\<rparr>\<rparr> in
      case save_data pf (files w) user df of
        Inl e \<Rightarrow> (w1, Raised e)
      | Inr fs \<Rightarrow> (w1\<lparr>files := fs\<rparr>, Rerun))"

definition add_application ::
  "platform \<Rightarrow> string \<Rightarrow> dataframe \<Rightarrow> application \<Rightarrow> world \<Rightarrow> world \<times> outcome" where
  "add_application pf user df new_row w = set_and_save pf user (df @ [new_row]) w"

definition save_changes :: "platform \<Rightarrow> string \<Rightarrow> dataframe \<Rightarrow> world \<Rightarrow> world \<times> outcome" where
  "save_changes pf user edited_df w = set_and_save pf user edited_df w"

definition set_show_confirm :: "bool \<Rightarrow> world \<Rightarrow> world" where
  "set_show_confirm b w = w\<lparr>session := (session w)\<lparr>show_confirm := b\<rparr>\<rparr>"

text \<open>Lines 368 to 371: the flag is reset after the save, so not when the save raises.\<close>

definition delete_all :: "platform \<Rightarrow> string \<Rightarrow> world \<Rightarrow> world \<times> outcome" where
  "delete_all pf user w =
     (case set_and_save pf user [] w of
        (w', Rerun) \<Rightarrow> (set_show_confirm False w', Rerun)
      | (w', out) \<Rightarrow> (w', out))"

text \<open>
  Lines 270 to 375, for the frame \<open>df\<close> of the session: filters, metrics, and, only when
  the filtered frame is not empty, the editor with its buttons and the confirmation
  dialog. \<open>err\<close> is the message already shown by the add form in this run, if any.
\<close>

definition applications_section ::
  "platform \<Rightarrow> inputs \<Rightarrow> string \<Rightarrow> dataframe \<Rightarrow> error option \<Rightarrow> world \<Rightarrow> world \<times> outcome" where
  "applications_section pf inp user df err w =
     (case apply_filters pf df (search_query inp) (status_filter inp) of
        Inl e \<Rightarrow> (w, Raised e)
      | Inr filtered_df \<Rightarrow>
          (case display_statistics pf df of
             Inl e \<Rightarrow> (w, Raised e)
           | Inr st \<Rightarrow>
               if filtered_df = [] then
                 (w, MainPage err \<lparr>shown = [], statistics = st, confirm_dialog = False\<rparr>)
               else
                 (case event inp of
                    SaveChangesClick edited_df \<Rightarrow> save_changes pf user edited_df w
                  | _ \<Rightarrow>
                      (let w2 = (if event inp = ClearAllClick then set_show_confirm True w
                                 else w)
                       in if show_confirm (session w2) then
                            (if event inp = YesDeleteClick then delete_all pf user w2
                             else if event inp = CancelClick
                               then (set_show_confirm False w2, Rerun)
                             else (w2, MainPage err
                                     \<lparr>shown = filtered_df, statistics = st,
                                      confirm_dialog = True\<rparr>))
                          else (w2, MainPage err
                                  \<lparr>shown = filtered_df, statistics = st,
                                   confirm_dialog = False\<rparr>)))))"

text \<open>
  \<^verbatim>\<open>main_app\<close>. The file name is built with an f-string, which prints a \<^verbatim>\<open>None\<close>
  username as the text \<^verbatim>\<open>None\<close>. After \<open>initialize_jobs\<close> the frame is in the session; the
  \<open>KeyError\<close> branch for a missing frame is there for totality only.
\<close>

definition main_app :: "platform \<Rightarrow> inputs \<Rightarrow> world \<Rightarrow> world \<times> outcome" where
  "main_app pf inp w =
     (let user = (case username (session w) of Some u \<Rightarrow> u | None \<Rightarrow> ''None'') in
      if event inp = LogoutClick then (logout w, Rerun)
      else
        (case initialize_jobs pf user w of
           Inl e \<Rightarrow> (w, Raised e)
         | Inr w1 \<Rightarrow>
             (case jobs_df (session w1) of
                None \<Rightarrow> (w1, Raised KeyError)
              | Some df \<Rightarrow>
                  (case event inp of
                     AddSubmit company job st applied pkg \<Rightarrow>
                       if company \<noteq> [] \<and> job \<noteq> [] then
                         add_application pf user df
                           \<lparr>company_name = company, job_title = job, status = st,
                            applied_date = applied, package = pkg\<rparr> w1
                       else applications_section pf inp user df (Some MissingRequiredField) w1
                   | RefreshClick \<Rightarrow>
                       (case load_data pf (files w1) user of
                          Inl e \<Rightarrow> (w1, Raised e)
                        | Inr df' \<Rightarrow>
                            (w1\<lparr>session := (session w1)\<lparr>jobs_df := Some df'\<rparr>\<rparr>, Rerun))
                   | _ \<Rightarrow> applications_section pf inp user df None w1))))"

subsection \<open>One interaction\<close>

text \<open>\<^verbatim>\<open>main\<close>: the page is chosen by the login flag.\<close>

definition main ::
  "platform \<Rightarrow> (string \<Rightarrow> string) \<Rightarrow> inputs \<Rightarrow> world \<Rightarrow> world \<times> outcome" where
  "main pf sha256_hexdigest inp w =
     (if logged_in (session w) then main_app pf inp w else login_page sha256_hexdigest inp w)"

text \<open>
  The run that \<^verbatim>\<open>st.rerun()\<close> starts has no click. After a login the main page's filter
  widgets are drawn for the first time and hold their defaults; otherwise widgets keep
  their values.
\<close>

definition rerun_inputs :: "inputs \<Rightarrow> inputs" where
  "rerun_inputs inp =
     (case event inp of
        LoginSubmit user password \<Rightarrow>
          inp\<lparr>event := NoClick, search_query := [], status_filter := ''All''\<rparr>
      | _ \<Rightarrow> inp\<lparr>event := NoClick\<rparr>)"

text \<open>One interaction: the script run it triggers and, if that run asks for it, the rerun.\<close>

definition interact ::
  "platform \<Rightarrow> (string \<Rightarrow> string) \<Rightarrow> inputs \<Rightarrow> world \<Rightarrow> world \<times> outcome" where
  "interact pf sha256_hexdigest inp w =
     (case main pf sha256_hexdigest inp w of
        (w', Rerun) \<Rightarrow> main pf sha256_hexdigest (rerun_inputs inp) w'
      | (w', out) \<Rightarrow> (w', out))"

text \<open>A sequence of interactions, one after the other; the state after the last.\<close>

definition interactions ::
  "platform \<Rightarrow> (string \<Rightarrow> string) \<Rightarrow> inputs list \<Rightarrow> world \<Rightarrow> world" where
  "interactions pf sha256_hexdigest inps w =
     foldl (\<lambda>w inp. fst (interact pf sha256_hexdigest inp w)) w inps"

text \<open>The states a browser session can be in, starting fresh over any files.\<close>

inductive reachable :: "platform \<Rightarrow> (string \<Rightarrow> string) \<Rightarrow> world \<Rightarrow> bool"
  for pf sha256_hexdigest where
  start: "reachable pf sha256_hexdigest \<lparr>session = initial_session, files = fs\<rparr>"
| step: "reachable pf sha256_hexdigest w \<Longrightarrow>
         reachable pf sha256_hexdigest (fst (interact pf sha256_hexdigest inp w))"

subsection \<open>Sequences of mutations\<close>

text \<open>
  The three mutating handlers as one step function, for statements about sequences of
  them. \<open>Add\<close> stands for a submission the add form accepts (company name and job title
  filled in); \<open>snapshot\<close> reads the frame of the session. A mutation ends with \<open>Rerun\<close> when
  its save went through and with \<open>Raised\<close> when it did not.
\<close>

datatype mutation = Add application | ApplyEdits dataframe | ClearAll

definition snapshot :: "world \<Rightarrow> dataframe" where
  "snapshot w = (case jobs_df (session w) of Some df \<Rightarrow> df | None \<Rightarrow> [])"

fun mutate :: "platform \<Rightarrow> string \<Rightarrow> world \<Rightarrow> mutation \<Rightarrow> world \<times> outcome" where
  "mutate pf user w (Add new_row) = add_application pf user (snapshot w) new_row w"
| "mutate pf user w (ApplyEdits edited_df) = save_changes pf user edited_df w"
| "mutate pf user w ClearAll = delete_all pf user w"

definition mutations :: "platform \<Rightarrow> string \<Rightarrow> world \<Rightarrow> mutation list \<Rightarrow> world" where
  "mutations pf user w ms = foldl (\<lambda>w m. fst (mutate pf user w m)) w ms"

text \<open>A date the platform reads back from its text: a calendar date in the timestamp range.\<close>

definition loadable_date :: "platform \<Rightarrow> date \<Rightarrow> bool" where
  "loadable_date pf d = (valid_date d \<and> pd_timestamp_range pf d)"

definition loadable_rows :: "platform \<Rightarrow> dataframe \<Rightarrow> bool" where
  "loadable_rows pf df = list_all (\<lambda>r. loadable_date pf (applied_date r)) df"

subsection \<open>Conditions on the state\<close>

text \<open>
  \<open>authenticated u df w\<close>: the main page has been drawn for user \<open>u\<close> and the session holds
  the frame \<open>df\<close>.
\<close>

definition authenticated :: "string \<Rightarrow> dataframe \<Rightarrow> world \<Rightarrow> bool" where
  "authenticated u df w =
     (logged_in (session w) \<and> username (session w) = Some u \<and>
      current_user (session w) = Some u \<and> jobs_df (session w) = Some df)"

text \<open>The four metrics, written with \<open>filter\<close> and the substring relation.\<close>

definition metrics_of :: "dataframe \<Rightarrow> stats" where
  "metrics_of df =
     \<lparr>total_apps = length df,
      interview_count = length (filter (\<lambda>r. sublist ''Interview'' (status r)) df),
      offers = length (filter (\<lambda>r. status r = ''Offer Received'') df),
      pending = length (filter (\<lambda>r. status r = ''Applied'') df)\<rparr>"

text \<open>
  What every script run keeps true of the session: while logged in the session names a
  user, and a frame is held only together with a \<open>current_user\<close> entry that names that
  same user; while logged out the session holds no frame.
\<close>

definition session_invariant :: "world \<Rightarrow> bool" where
  "session_invariant w =
     (if logged_in (session w) then
        username (session w) \<noteq> None \<and>
        (jobs_df (session w) \<noteq> None \<longrightarrow> current_user (session w) = username (session w))
      else jobs_df (session w) = None)"

subsection \<open>Platforms and a small store, for concrete instances\<close>

text \<open>
  The dates a nanosecond timestamp holds at midnight: 22 September 1677 to 11 April 2262,
  the range of \<^verbatim>\<open>pd.Timestamp\<close> in the releases of the library that parse text to
  nanoseconds.
\<close>

definition date_le :: "date \<Rightarrow> date \<Rightarrow> bool" where
  "date_le a b =
     (year a < year b \<or>
      (year a = year b \<and> (month a < month b \<or> (month a = month b \<and> day a \<le> day b))))"

definition in_ns_range :: "date \<Rightarrow> bool" where
  "in_ns_range d =
     (date_le \<lparr>year = 1677, month = 9, day = 22\<rparr> d \<and>
      date_le d \<lparr>year = 2262, month = 4, day = 11\<rparr>)"

text \<open>
  A stand-in for the regular-expression library, which the instances below hand two
  patterns: the alternation \<^verbatim>\<open>a|b\<close>, found in a cell that contains one of the two
  letters, and an unclosed parenthesis, which \<^verbatim>\<open>re.compile\<close> refuses. The stand-in
  refuses every pattern but the first; the instances rely on it for these two only.
\<close>

definition example_re_library :: "string \<Rightarrow> bool \<Rightarrow> (string \<Rightarrow> bool) option" where
  "example_re_library pat ignorecase =
     (if pat = ''a|b''
      then Some (\<lambda>s. sublist ''a'' (if ignorecase then lower s else s) \<or>
                      sublist ''b'' (if ignorecase then lower s else s))
      else None)"

text \<open>
  \<open>flat_platform\<close>: a case-sensitive file system on which \<^verbatim>\<open>data/\<close> has no
  subdirectories, which is how the script leaves it (it creates no directory but
  \<^verbatim>\<open>data/\<close> itself). A name with a slash then denotes no file that could exist. Its
  timestamps count nanoseconds. The instances store no date text but what \<open>date_str\<close>
  writes, so what the parser makes of other text is left at \<open>None\<close>.
\<close>

definition flat_platform :: platform where
  "flat_platform =
     \<lparr>os_locate = (\<lambda>name. if CHR ''/'' \<in> set name then None else Some [name]),
      os_writable = (\<lambda>file. True),
      pd_timestamp_range = in_ns_range,
      pd_parse_other = (\<lambda>s. None),
      re_library = example_re_library\<rparr>"

text \<open>\<open>folding_platform\<close>: the same on a file system that ignores case.\<close>

definition folding_platform :: platform where
  "folding_platform =
     flat_platform
       \<lparr>os_locate := (\<lambda>name. if CHR ''/'' \<in> set name then None else Some [lower name])\<rparr>"

text \<open>
  \<open>subdir_platform\<close>: a case-sensitive file system on which someone has made the
  directory \<^verbatim>\<open>data/jobs_a\<close>. \<open>path_parts\<close> is how \<^verbatim>\<open>pathlib\<close> splits a relative POSIX path.
\<close>

fun split_at :: "char \<Rightarrow> string \<Rightarrow> string list" where
  "split_at c [] = [[]]"
| "split_at c (x # xs) =
     (if x = c then [] # split_at c xs
      else (case split_at c xs of p # ps \<Rightarrow> (x # p) # ps | [] \<Rightarrow> [[x]]))"

definition path_parts :: "string \<Rightarrow> string list" where
  "path_parts name = filter (\<lambda>p. p \<noteq> [] \<and> p \<noteq> ''.'') (split_at (CHR ''/'') name)"

definition subdir_platform :: platform where
  "subdir_platform =
     flat_platform
       \<lparr>os_locate :=
          (\<lambda>name. let parts = path_parts name
                   in if length parts = 1 \<or> (length parts = 2 \<and> hd parts = ''jobs_a'')
                      then Some parts else None)\<rparr>"

text \<open>
  Two registered users; \<open>bob\<close>'s record has no display name. Each has one stored
  application. \<open>example_digest\<close> takes the place of the digest parameter in concrete
  instances.
\<close>

definition example_digest :: "string \<Rightarrow> string" where
  "example_digest s = rev s"

definition acme :: application where
  "acme = \<lparr>company_name = ''Acme'', job_title = ''Engineer'', status = ''Applied'',
           applied_date = \<lparr>year = 2024, month = 1, day = 10\<rparr>, package = []\<rparr>"

definition interviewing :: application where
  "interviewing = acme\<lparr>status := ''Interview Scheduled''\<rparr>"

definition ghosted :: application where
  "ghosted = acme\<lparr>status := ''Ghosted''\<rparr>"

definition ancient :: application where
  "ancient = acme\<lparr>applied_date := \<lparr>year = 1600, month = 1, day = 1\<rparr>\<rparr>"

definition alice_record :: user_record where
  "alice_record =
     [''password'' \<mapsto> example_digest ''pass1234'', ''display_name'' \<mapsto> ''Alice'',
      ''created_at'' \<mapsto> ''2024-01-01T09:00:00'']"

definition bob_record :: user_record where
  "bob_record = [''password'' \<mapsto> example_digest ''hunter22'']"

definition example_files :: file_store where
  "example_files =
     \<lparr>users_file = Some [''alice'' \<mapsto> alice_record, ''bob'' \<mapsto> bob_record],
      data_files =
        [[''jobs_alice.json''] \<mapsto> map store_row [acme],
         [''jobs_bob.json''] \<mapsto> map store_row [interviewing]]\<rparr>"

definition fresh_world :: world where
  "fresh_world = \<lparr>session = initial_session, files = example_files\<rparr>"

definition alice_world :: world where
  "alice_world =
     \<lparr>session =
        \<lparr>logged_in = True, username = Some ''alice'', display_name = Some ''Alice'',
         jobs_df = Some [acme], current_user = Some ''alice'', show_confirm = False\<rparr>,
      files = example_files\<rparr>"

definition click :: "event \<Rightarrow> inputs" where
  "click e =
     \<lparr>event = e, search_query = [], status_filter = ''All'',
      now_isoformat = ''2024-02-01T12:00:00''\<rparr>"

text \<open>A store nobody has used yet.\<close>

definition empty_world :: world where
  "empty_world =
     \<lparr>session = initial_session, files = \<lparr>users_file = None, data_files = Map.empty\<rparr>\<rparr>"

text \<open>
  A third application, a session of \<open>alice\<close> that tracks all three, and the inputs of a
  script run without a click in which the two filter widgets hold \<open>q\<close> and \<open>f\<close>.
\<close>

definition xyz :: application where
  "xyz = \<lparr>company_name = ''XYZ'', job_title = ''Tester'', status = ''Offer Received'',
          applied_date = \<lparr>year = 2024, month = 3, day = 5\<rparr>, package = ''90000''\<rparr>"

definition tracked_world :: world where
  "tracked_world =
     \<lparr>session = (session alice_world)\<lparr>jobs_df := Some [acme, interviewing, xyz]\<rparr>,
      files = example_files
        \<lparr>data_files := (data_files example_files)
           ([''jobs_alice.json''] \<mapsto> map store_row [acme, interviewing, xyz])\<rparr>\<rparr>"

definition searching :: "string \<Rightarrow> string \<Rightarrow> inputs" where
  "searching q f = (click NoClick)\<lparr>search_query := q, status_filter := f\<rparr>"

text \<open>
  A store in which the file of \<open>alice\<close> holds a row whose status is not one of
  \<open>STATUS_OPTIONS\<close>, and that row with another package, as the editor returns it after
  the package cell was edited.
\<close>

definition ghosted_start :: world where
  "ghosted_start =
     \<lparr>session = initial_session,
      files = example_files
        \<lparr>data_files := (data_files example_files)
           ([''jobs_alice.json''] \<mapsto> map store_row [ghosted])\<rparr>\<rparr>"

definition ghosted_edited :: application where
  "ghosted_edited = ghosted\<lparr>package := ''12 LPA''\<rparr>"

text \<open>The session of \<open>alice\<close> over that store, once she has logged in.\<close>

definition ghosted_world :: world where
  "ghosted_world =
     \<lparr>session = (session alice_world)\<lparr>jobs_df := Some [ghosted]\<rparr>, files = files ghosted_start\<rparr>"

text \<open>
  \<open>pending_world\<close>: \<open>bob\<close> has just logged in, and the session still carries the request to
  clear that was made before he did. \<open>slash_world\<close>: the user \<^verbatim>\<open>a/b\<close> has registered in a
  store nobody had used and has logged in.
\<close>

definition pending_world :: world where
  "pending_world =
     \<lparr>session =
        \<lparr>logged_in = True, username = Some ''bob'', display_name = Some ''bob'',
         jobs_df = Some [interviewing], current_user = Some ''bob'', show_confirm = True\<rparr>,
      files = example_files\<rparr>"

definition slash_world :: world where
  "slash_world =
     \<lparr>session =
        \<lparr>logged_in = True, username = Some ''a/b'', display_name = Some ''Ab'',
         jobs_df = Some [], current_user = Some ''a/b'', show_confirm = False\<rparr>,
      files =
        \<lparr>users_file =
           Some [''a/b'' \<mapsto>
                   [''password'' \<mapsto> example_digest ''pass1234'', ''display_name'' \<mapsto> ''Ab'',
                    ''created_at'' \<mapsto> ''2024-02-01T12:00:00'']],
         data_files = Map.empty\<rparr>\<rparr>"

text \<open>\<open>unsaved_world\<close>: that session with a frame of one row and the store as it was.\<close>

definition unsaved_world :: world where
  "unsaved_world = slash_world\<lparr>session := (session slash_world)\<lparr>jobs_df := Some [acme]\<rparr>\<rparr>"

text \<open>\<open>readonly_platform\<close>: as \<open>flat_platform\<close>, but no file can be opened for writing.\<close>

definition readonly_platform :: platform where
  "readonly_platform = flat_platform\<lparr>os_writable := (\<lambda>file. False)\<rparr>"

section \<open>Properties\<close>

subsection \<open>Dates survive their text form\<close>

declare dec.simps [simp del]

lemma digit_val_digit_char: "n < 10 \<Longrightarrow> digit_val (digit_char n) = n"
  by (simp add: digit_val_def digit_char_def)

lemma is_digit_digit_char: "n < 10 \<Longrightarrow> is_digit (digit_char n)"
  by (simp add: is_digit_def digit_char_def)

lemma digits_val_snoc: "digits_val (s @ [c]) = 10 * digits_val s + digit_val c"
  by (simp add: digits_val_def)

lemma digits_val_dec: "digits_val (dec n) = n"
proof (induction n rule: dec.induct)
  case (1 n)
  show ?case
  proof (cases "n < 10")
    case True
    then show ?thesis by (subst dec.simps) (simp add: digits_val_def digit_val_digit_char)
  next
    case False
    then have "digits_val (dec n) = 10 * digits_val (dec (n div 10)) + digit_val (digit_char (n mod 10))"
      by (subst dec.simps) (simp add: digits_val_snoc)
    with False 1 show ?thesis by (simp add: digit_val_digit_char)
  qed
qed

lemma all_digits_dec: "list_all is_digit (dec n)"
proof (induction n rule: dec.induct)
  case (1 n)
  show ?case
  proof (cases "n < 10")
    case True
    then show ?thesis by (subst dec.simps) (simp add: is_digit_digit_char)
  next
    case False
    with 1 show ?thesis by (subst dec.simps) (simp add: is_digit_digit_char)
  qed
qed

lemma length_dec_le: "n < 10 ^ k \<Longrightarrow> 0 < k \<Longrightarrow> length (dec n) \<le> k"
proof (induction n arbitrary: k rule: dec.induct)
  case (1 n)
  show ?case
  proof (cases "n < 10")
    case True
    with 1 show ?thesis by (subst dec.simps) simp
  next
    case False
    obtain j where k: "k = Suc j" using 1(3) by (cases k) auto
    from False 1(2) k have j: "0 < j" by (cases j) auto
    from 1(2) k have "n div 10 < 10 ^ j" by (simp add: less_mult_imp_div_less mult.commute)
    with 1(1)[OF False _ j] have "length (dec (n div 10)) \<le> j" by simp
    with False k show ?thesis by (subst dec.simps) simp
  qed
qed

lemma digits_val_zeros: "digits_val (replicate k (CHR ''0'') @ s) = digits_val s"
  by (induction k) (simp_all add: digits_val_def digit_val_def)

lemma digits_val_zero_padded: "digits_val (zero_padded w n) = n"
  by (simp add: zero_padded_def digits_val_zeros digits_val_dec)

lemma all_digits_zero_padded: "list_all is_digit (zero_padded w n)"
proof -
  have "list_all is_digit (replicate k (CHR ''0''))" for k
    by (induction k) (simp_all add: is_digit_def)
  then show ?thesis by (simp add: zero_padded_def all_digits_dec)
qed

lemma length_zero_padded: "n < 10 ^ w \<Longrightarrow> 0 < w \<Longrightarrow> length (zero_padded w n) = w"
  using length_dec_le[of n w] by (simp add: zero_padded_def)

lemma valid_date_bounds:
  "valid_date d \<Longrightarrow> year d < 10 ^ 4 \<and> month d < 10 ^ 2 \<and> day d < 10 ^ 2"
  by (auto simp: valid_date_def days_in_month_def split: if_splits)

lemma iso_form_date_str:
  assumes "valid_date d" shows "is_iso_form (date_str d) \<and> iso_fields (date_str d) = d"
proof -
  define ys ms ds where "ys = zero_padded 4 (year d)" and "ms = zero_padded 2 (month d)"
    and "ds = zero_padded 2 (day d)"
  from valid_date_bounds[OF assms] have len: "length ys = 4" "length ms = 2" "length ds = 2"
    by (simp_all add: ys_def ms_def ds_def length_zero_padded)
  have dig: "list_all is_digit ys" "list_all is_digit ms" "list_all is_digit ds"
    by (simp_all add: ys_def ms_def ds_def all_digits_zero_padded)
  have val: "digits_val ys = year d" "digits_val ms = month d" "digits_val ds = day d"
    by (simp_all add: ys_def ms_def ds_def digits_val_zero_padded)
  have s: "date_str d = ys @ CHR ''-'' # ms @ CHR ''-'' # ds"
    by (simp add: date_str_def ys_def ms_def ds_def)
  show ?thesis
    unfolding s is_iso_form_def iso_fields_def using len dig val
    by (simp add: nth_append)
qed

lemma to_datetime_date_str:
  "loadable_date pf d \<Longrightarrow> to_datetime_date pf (date_str d) = Some d"
  by (simp add: to_datetime_date_def loadable_date_def iso_form_date_str)

lemma to_datetime_date_str_iff:
  "valid_date d \<Longrightarrow> (to_datetime_date pf (date_str d) = Some d) = pd_timestamp_range pf d"
  by (simp add: to_datetime_date_def iso_form_date_str)

lemma to_datetime_date_out_of_range:
  "valid_date d \<Longrightarrow> \<not> pd_timestamp_range pf d \<Longrightarrow> to_datetime_date pf (date_str d) = None"
  by (simp add: to_datetime_date_def iso_form_date_str)

subsection \<open>Saving and loading a frame\<close>

lemma parse_row_store_row:
  "loadable_date pf (applied_date a) \<Longrightarrow> parse_row pf (store_row a) = Some a"
  by (simp add: parse_row_def store_row_def to_datetime_date_str)

lemma parse_rows_store_rows:
  "loadable_rows pf df \<Longrightarrow> parse_rows pf (map store_row df) = Some df"
  unfolding loadable_rows_def by (induction df) (simp_all add: parse_row_store_row)

lemma save_data_Inr:
  "save_data pf fs u df = Inr fs' \<Longrightarrow>
   \<exists>file. os_locate pf (get_user_data_file u) = Some file \<and> os_writable pf file \<and>
          fs' = fs\<lparr>data_files := (data_files fs)(file \<mapsto> map store_row df)\<rparr>"
  by (auto simp: save_data_def split: option.splits if_splits)

lemma load_data_after_save:
  assumes "save_data pf fs u df = Inr fs'" "loadable_rows pf df"
  shows "load_data pf fs' u = Inr df"
proof -
  from save_data_Inr[OF assms(1)] obtain loc where
    l: "os_locate pf (get_user_data_file u) = Some loc" and
    f: "fs' = fs\<lparr>data_files := (data_files fs)(loc \<mapsto> map store_row df)\<rparr>" by blast
  show ?thesis
  proof (cases "df = []")
    case True
    with l f show ?thesis by (simp add: load_data_def)
  next
    case False
    with l f parse_rows_store_rows[OF assms(2)] show ?thesis by (simp add: load_data_def)
  qed
qed

lemma load_data_after_save_other:
  assumes "save_data pf fs u1 df = Inr fs'"
    "os_locate pf (get_user_data_file u1) \<noteq> os_locate pf (get_user_data_file u2)"
  shows "load_data pf fs' u2 = load_data pf fs u2"
proof -
  from save_data_Inr[OF assms(1)] obtain loc where
    l: "os_locate pf (get_user_data_file u1) = Some loc" and
    f: "fs' = fs\<lparr>data_files := (data_files fs)(loc \<mapsto> map store_row df)\<rparr>" by blast
  with assms(2) show ?thesis
    by (auto simp: load_data_def split: option.splits)
qed

lemma load_data_users_file [simp]:
  "load_data pf (fs\<lparr>users_file := x\<rparr>) u = load_data pf fs u"
  by (simp add: load_data_def split: option.splits)

subsection \<open>Masks, patterns without special characters, and the metrics\<close>

lemma boolean_index_map: "boolean_index df (map p df) = filter p df"
  by (induction df) (simp_all add: boolean_index_def)

lemma re_compile_plain:
  "set pat \<inter> set special_chars = {} \<Longrightarrow> re_compile pat = Some (map Lit pat)"
proof (induction pat)
  case Nil
  then show ?case by simp
next
  case (Cons c cs)
  then have "c \<notin> set special_chars" "set cs \<inter> set special_chars = {}" by auto
  moreover from this have "c \<noteq> CHR ''.''" by (auto simp: special_chars_def)
  ultimately show ?case using Cons.IH by simp
qed

lemma match_here_lit_case:
  "match_here False (map Lit pat) s = prefix pat s"
  by (induction pat arbitrary: s) (simp, case_tac s, simp_all)

lemma match_here_lit_ignorecase:
  "match_here True (map Lit pat) s = prefix (lower pat) (lower s)"
  by (induction pat arbitrary: s) (simp add: lower_def, case_tac s, simp_all add: lower_def)

lemma re_search_lit_case: "re_search False (map Lit pat) s = sublist pat s"
  by (induction s) (auto simp: match_here_lit_case sublist_Cons_right)

lemma re_search_lit_ignorecase:
  "re_search True (map Lit pat) s = sublist (lower pat) (lower s)"
proof (induction s)
  case Nil
  then show ?case by (simp add: match_here_lit_ignorecase lower_def)
next
  case (Cons c cs)
  have "lower (c # cs) = lower_char c # lower cs" by (simp add: lower_def)
  with Cons show ?case
    by (simp add: match_here_lit_ignorecase sublist_Cons_right)
qed

lemma compile_pattern_plain:
  "set pat \<inter> set special_chars = {} \<Longrightarrow>
   compile_pattern pf pat ignorecase = Some (re_search ignorecase (map Lit pat))"
  by (simp add: compile_pattern_def re_compile_plain)

lemma str_contains_plain:
  "set pat \<inter> set special_chars = {} \<Longrightarrow>
   str_contains pf series pat cs =
     Inr (map (\<lambda>s. if cs then sublist pat s else sublist (lower pat) (lower s)) series)"
  by (simp add: str_contains_def compile_pattern_plain re_search_lit_case
      re_search_lit_ignorecase)

lemma interview_plain: "set ''Interview'' \<inter> set special_chars = {}"
  by (simp add: special_chars_def)

lemma display_statistics_eq: "display_statistics pf df = Inr (metrics_of df)"
proof -
  have "str_contains pf (map status df) ''Interview'' True =
          Inr (map (\<lambda>r. sublist ''Interview'' (status r)) df)"
    by (simp add: str_contains_plain[OF interview_plain] o_def)
  then show ?thesis
    by (simp add: display_statistics_def boolean_index_map metrics_of_def)
qed

lemma map2_or_map: "map2 (\<or>) (map p xs) (map q xs) = map (\<lambda>x. p x \<or> q x) xs"
  by (induction xs) simp_all

text \<open>
  What the two filters compute, for any search text that compiles: the rows one of whose
  two fields the compiled pattern is found in, and then the rows with the selected status,
  in the order of the frame.
\<close>

lemma apply_filters_compiled:
  assumes "q = [] \<or> compile_pattern pf q True = Some found"
  shows "apply_filters pf df q f =
     Inr (filter (\<lambda>r. f = ''All'' \<or> status r = f)
           (filter (\<lambda>r. q = [] \<or> found (company_name r) \<or> found (job_title r)) df))"
proof (cases "q = []")
  case True
  then show ?thesis by (simp add: apply_filters_def boolean_index_map)
next
  case False
  with assms have "compile_pattern pf q True = Some found" by simp
  with False show ?thesis
    by (simp add: apply_filters_def str_contains_def o_def map2_or_map boolean_index_map)
qed

lemma apply_filters_ReError:
  "q \<noteq> [] \<Longrightarrow> compile_pattern pf q True = None \<Longrightarrow> apply_filters pf df q f = Inl ReError"
  by (simp add: apply_filters_def str_contains_def)

lemma apply_filters_cases:
  "(\<exists>fd. apply_filters pf df q f = Inr fd) \<or>
   (apply_filters pf df q f = Inl ReError \<and> q \<noteq> [] \<and> compile_pattern pf q True = None)"
proof (cases "q = []")
  case True
  then show ?thesis by (simp add: apply_filters_compiled)
next
  case False
  then show ?thesis
    by (cases "compile_pattern pf q True")
       (simp_all add: apply_filters_ReError apply_filters_compiled)
qed

text \<open>
  For a search text without special characters the search is the case-insensitive
  substring test on the company name and the job title.
\<close>

lemma apply_filters_plain:
  assumes "set q \<inter> set special_chars = {}"
  shows "apply_filters pf df q f =
     Inr (filter (\<lambda>r. f = ''All'' \<or> status r = f)
           (filter (\<lambda>r. q = [] \<or>
                         sublist (lower q) (lower (company_name r)) \<or>
                         sublist (lower q) (lower (job_title r))) df))"
  using apply_filters_compiled[of q pf "re_search True (map Lit q)" df f]
  by (simp add: compile_pattern_plain[OF assms] re_search_lit_ignorecase)

subsection \<open>The main page for an authenticated session\<close>

lemma initialize_jobs_authenticated:
  "authenticated u df w \<Longrightarrow> initialize_jobs pf u' w = Inr w"
  by (simp add: authenticated_def initialize_jobs_def)

lemma main_app_authenticated:
  assumes "authenticated u df w"
  shows "main_app pf inp w =
     (if event inp = LogoutClick then (logout w, Rerun)
      else case event inp of
        AddSubmit company job st applied pkg \<Rightarrow>
          if company \<noteq> [] \<and> job \<noteq> [] then
            add_application pf u df
               \<lparr>company_name = company, job_title = job, status = st,
                applied_date = applied, package = pkg\<rparr> w
          else applications_section pf inp u df (Some MissingRequiredField) w
      | RefreshClick \<Rightarrow>
          (case load_data pf (files w) u of
             Inl e \<Rightarrow> (w, Raised e)
           | Inr df' \<Rightarrow> (w\<lparr>session := (session w)\<lparr>jobs_df := Some df'\<rparr>\<rparr>, Rerun))
      | _ \<Rightarrow> applications_section pf inp u df None w)"
  using assms initialize_jobs_authenticated[OF assms, of pf u]
  by (simp add: main_app_def authenticated_def)

lemma applications_section_NoClick:
  assumes "event inp = NoClick"
  shows "fst (applications_section pf inp u df err w) = w"
  using assms
  by (simp add: applications_section_def Let_def display_statistics_eq split: sum.splits)

lemma event_rerun_inputs [simp]: "event (rerun_inputs inp) = NoClick"
  by (cases "event inp") (simp_all add: rerun_inputs_def)

lemma main_rerun_authenticated:
  assumes "authenticated u df w"
  shows "fst (main pf sha256_hexdigest (rerun_inputs inp) w) = w"
proof -
  from assms have "logged_in (session w)" by (simp add: authenticated_def)
  then show ?thesis
    by (simp add: main_def main_app_authenticated[OF assms] applications_section_NoClick)
qed

lemma interact_rerun:
  assumes "main pf sha256_hexdigest inp w = (w', Rerun)" "authenticated u df w'"
  shows "fst (interact pf sha256_hexdigest inp w) = w'"
  using assms by (simp add: interact_def main_rerun_authenticated)

lemma interact_no_rerun:
  assumes "snd (main pf sha256_hexdigest inp w) \<noteq> Rerun"
  shows "interact pf sha256_hexdigest inp w = main pf sha256_hexdigest inp w"
  using assms
  by (cases "main pf sha256_hexdigest inp w"; cases "snd (main pf sha256_hexdigest inp w)")
     (simp_all add: interact_def)

lemma set_and_save_cases:
  "(\<exists>fs. save_data pf (files w) u df = Inr fs \<and>
         set_and_save pf u df w =
           (w\<lparr>session := (session w)\<lparr>jobs_df := Some df\<rparr>, files := fs\<rparr>, Rerun)) \<or>
   (save_data pf (files w) u df = Inl OpenFailed \<and>
    set_and_save pf u df w = (w\<lparr>session := (session w)\<lparr>jobs_df := Some df\<rparr>\<rparr>, Raised OpenFailed))"
  by (cases "save_data pf (files w) u df")
     (auto simp: set_and_save_def Let_def save_data_def split: option.splits if_splits)

lemma jobs_df_set_and_save [simp]:
  "jobs_df (session (fst (set_and_save pf u df w))) = Some df"
  using set_and_save_cases[of pf w u df] by auto

lemma snapshot_set_and_save [simp]: "snapshot (fst (set_and_save pf u df w)) = df"
  by (simp add: snapshot_def)

lemma authenticated_set_and_save:
  "authenticated u df w \<Longrightarrow> authenticated u df' (fst (set_and_save pf u' df' w))"
  using set_and_save_cases[of pf w u' df'] by (auto simp: authenticated_def)

lemma authenticated_set_show_confirm:
  "authenticated u df w \<Longrightarrow> authenticated u df (set_show_confirm b w)"
  by (simp add: authenticated_def set_show_confirm_def)

lemma set_and_save_outcome:
  "snd (set_and_save pf u df w) = Rerun \<or> snd (set_and_save pf u df w) = Raised OpenFailed"
  using set_and_save_cases[of pf w u df] by auto

lemma set_and_save_Rerun:
  assumes "snd (set_and_save pf u df w) = Rerun"
  shows "save_data pf (files w) u df = Inr (files (fst (set_and_save pf u df w)))"
  using assms set_and_save_cases[of pf w u df] by auto

lemma set_and_save_Raised:
  assumes "snd (set_and_save pf u df w) \<noteq> Rerun"
  shows "files (fst (set_and_save pf u df w)) = files w"
  using assms set_and_save_cases[of pf w u df] by auto

lemma delete_all_cases:
  "(snd (set_and_save pf u [] w) = Rerun \<and>
    delete_all pf u w = (set_show_confirm False (fst (set_and_save pf u [] w)), Rerun)) \<or>
   (snd (set_and_save pf u [] w) = Raised OpenFailed \<and>
    delete_all pf u w = set_and_save pf u [] w)"
  using set_and_save_outcome[of pf u "[]" w]
  by (cases "set_and_save pf u [] w") (auto simp: delete_all_def)

lemma snapshot_delete_all [simp]: "snapshot (fst (delete_all pf u w)) = []"
  using delete_all_cases[of pf u w] snapshot_set_and_save[of pf u "[]" w]
  by (auto simp: snapshot_def set_show_confirm_def)

lemma jobs_df_delete_all [simp]: "jobs_df (session (fst (delete_all pf u w))) = Some []"
  using delete_all_cases[of pf u w] jobs_df_set_and_save[of pf u "[]" w]
  by (auto simp: set_show_confirm_def)

lemma applications_section_MainPage:
  assumes "applications_section pf inp u df err w = (w', MainPage err' v)"
  shows "jobs_df (session w') = jobs_df (session w) \<and> files w' = files w \<and>
         statistics v = metrics_of df \<and>
         apply_filters pf df (search_query inp) (status_filter inp) = Inr (shown v)"
proof -
  have s: "snd (save_changes pf u e w0) \<noteq> MainPage err' v" for e w0
    using set_and_save_outcome[of pf u e w0] by (auto simp: save_changes_def)
  have d: "snd (delete_all pf u w0) \<noteq> MainPage err' v" for w0
    using delete_all_cases[of pf u w0] by auto
  from assms s d show ?thesis
    by (auto simp: applications_section_def display_statistics_eq Let_def
        set_show_confirm_def split: sum.splits if_splits event.splits)
      (metis snd_conv)+
qed

lemma main_app_MainPage:
  assumes "main_app pf inp w = (w', MainPage err v)"
  obtains w1 df err0 u where
    "jobs_df (session w1) = Some df"
    "applications_section pf inp u df err0 w1 = (w', MainPage err v)"
proof -
  have a: "snd (add_application pf u df r w0) \<noteq> MainPage err v" for u df r w0
    using set_and_save_outcome[of pf u "df @ [r]" w0] by (auto simp: add_application_def)
  from assms a that show ?thesis
    by (auto simp: main_app_def Let_def split: if_splits sum.splits option.splits event.splits)
      (metis snd_conv)+
qed

subsection \<open>Sequences of mutations\<close>

lemma snapshot_mutate:
  "snapshot (fst (mutate pf u w m)) =
     (case m of Add new_row \<Rightarrow> snapshot w @ [new_row] | ApplyEdits edited_df \<Rightarrow> edited_df
      | ClearAll \<Rightarrow> [])"
  by (cases m) (simp_all add: add_application_def save_changes_def)

lemma jobs_df_mutate: "jobs_df (session (fst (mutate pf u w m))) = Some (snapshot (fst (mutate pf u w m)))"
  by (cases m) (simp_all add: add_application_def save_changes_def)

lemma mutate_Rerun:
  assumes "snd (mutate pf u w m) = Rerun"
  shows "save_data pf (files w) u (snapshot (fst (mutate pf u w m))) =
           Inr (files (fst (mutate pf u w m)))"
proof (cases m)
  case (Add r)
  with assms show ?thesis by (simp add: add_application_def set_and_save_Rerun)
next
  case (ApplyEdits e)
  with assms show ?thesis by (simp add: save_changes_def set_and_save_Rerun)
next
  case ClearAll
  with assms delete_all_cases[of pf u w] set_and_save_Rerun[of pf u "[]" w]
  show ?thesis by (auto simp: set_show_confirm_def)
qed

text \<open>
  What a load returns after a sequence of mutations, on any platform. A user without a
  file loads the empty frame. After any sequence of mutations and one more, the session
  holds the frame the last mutation built; if its save went through, the user's file
  holds exactly the rows of that frame, and the file loads back to that frame provided
  every date of the frame is one the platform's timestamps hold.
\<close>

lemma load_after_persist:
  "((\<forall>loc. os_locate pf (get_user_data_file u) = Some loc \<longrightarrow> data_files fs loc = None) \<longrightarrow>
      load_data pf fs u = Inr []) \<and>
   (let w1 = mutations pf u w ms; w2 = fst (mutate pf u w1 m) in
      jobs_df (session w2) = Some (snapshot w2) \<and>
      snapshot w2 =
        (case m of Add new_row \<Rightarrow> snapshot w1 @ [new_row]
         | ApplyEdits edited_df \<Rightarrow> edited_df | ClearAll \<Rightarrow> []) \<and>
      (snd (mutate pf u w1 m) = Rerun \<longrightarrow>
         save_data pf (files w1) u (snapshot w2) = Inr (files w2) \<and>
         (\<exists>loc. os_locate pf (get_user_data_file u) = Some loc \<and>
                data_files (files w2) loc = Some (map store_row (snapshot w2)))) \<and>
      (snd (mutate pf u w1 m) = Rerun \<and> loadable_rows pf (snapshot w2) \<longrightarrow>
         load_data pf (files w2) u = Inr (snapshot w2)))"
proof -
  have a: "load_data pf fs u = Inr []"
    if "\<forall>loc. os_locate pf (get_user_data_file u) = Some loc \<longrightarrow> data_files fs loc = None"
    using that by (auto simp: load_data_def split: option.splits)
  define w1 where "w1 = mutations pf u w ms"
  define w2 where "w2 = fst (mutate pf u w1 m)"
  have j: "jobs_df (session w2) = Some (snapshot w2)"
    unfolding w2_def by (rule jobs_df_mutate)
  have s: "snapshot w2 =
             (case m of Add new_row \<Rightarrow> snapshot w1 @ [new_row]
              | ApplyEdits edited_df \<Rightarrow> edited_df | ClearAll \<Rightarrow> [])"
    unfolding w2_def by (rule snapshot_mutate)
  have p: "save_data pf (files w1) u (snapshot w2) = Inr (files w2) \<and>
         (\<exists>loc. os_locate pf (get_user_data_file u) = Some loc \<and>
                data_files (files w2) loc = Some (map store_row (snapshot w2)))"
    if "snd (mutate pf u w1 m) = Rerun"
  proof -
    from mutate_Rerun[OF that] have sv: "save_data pf (files w1) u (snapshot w2) = Inr (files w2)"
      by (simp add: w2_def)
    from save_data_Inr[OF sv] sv show ?thesis by auto
  qed
  have l: "load_data pf (files w2) u = Inr (snapshot w2)"
    if "snd (mutate pf u w1 m) = Rerun" "loadable_rows pf (snapshot w2)"
    using p[OF that(1)] that(2) by (auto intro: load_data_after_save)
  from a j s p l show ?thesis
    unfolding Let_def w1_def w2_def by blast
qed

subsection \<open>One interaction at a time, with the filters at their defaults\<close>

lemma event_click [simp]: "event (click e) = e"
  by (simp add: click_def)

lemma search_query_click [simp]: "search_query (click e) = []"
  by (simp add: click_def)

lemma status_filter_click [simp]: "status_filter (click e) = ''All''"
  by (simp add: click_def)

lemma now_isoformat_click [simp]: "now_isoformat (click e) = ''2024-02-01T12:00:00''"
  by (simp add: click_def)

lemma rerun_inputs_click:
  "rerun_inputs (click e) = click NoClick"
  by (cases e) (simp_all add: rerun_inputs_def click_def)

lemma apply_filters_no_filter [simp]: "apply_filters pf df [] ''All'' = Inr df"
  by (simp add: apply_filters_def)

lemma page_click:
  assumes "authenticated u df w"
  shows "main pf sha256_hexdigest (click NoClick) w =
           (w, MainPage None \<lparr>shown = df, statistics = metrics_of df,
                              confirm_dialog = (df \<noteq> [] \<and> show_confirm (session w))\<rparr>)"
proof -
  from assms have "logged_in (session w)" by (simp add: authenticated_def)
  then show ?thesis
    by (simp add: main_def main_app_authenticated[OF assms] applications_section_def
        display_statistics_eq)
qed

lemma clear_all_click:
  assumes "authenticated u df w" "df \<noteq> []"
  shows "interact pf sha256_hexdigest (click ClearAllClick) w =
           (set_show_confirm True w,
            MainPage None \<lparr>shown = df, statistics = metrics_of df, confirm_dialog = True\<rparr>)"
proof -
  from assms have "logged_in (session w)" by (simp add: authenticated_def)
  with assms(2) show ?thesis
    by (simp add: interact_def main_def main_app_authenticated[OF assms(1)]
        applications_section_def display_statistics_eq set_show_confirm_def)
qed

lemma logout_click:
  assumes "logged_in (session w)"
  shows "interact pf sha256_hexdigest (click LogoutClick) w = (logout w, LoginPage None)"
proof -
  from assms have 1: "main pf sha256_hexdigest (click LogoutClick) w = (logout w, Rerun)"
    by (simp add: main_def main_app_def)
  have 2: "main pf sha256_hexdigest (click NoClick) (logout w) = (logout w, LoginPage None)"
    by (simp add: main_def logout_def login_page_def)
  from 1 2 show ?thesis by (simp add: interact_def rerun_inputs_click)
qed

lemma login_click:
  assumes "\<not> logged_in (session w)" "jobs_df (session w) = None"
    and "user \<noteq> []" "password \<noteq> []"
    and "load_users (files w) user = Some r"
    and "r ''password'' = Some (hash_password sha256_hexdigest password)"
    and "load_data pf (files w) user = Inr df"
  shows "interact pf sha256_hexdigest (click (LoginSubmit user password)) w =
           (w\<lparr>session := (session w)
                \<lparr>logged_in := True, username := Some user,
                 display_name := Some (case r ''display_name'' of Some d \<Rightarrow> d | None \<Rightarrow> user),
                 jobs_df := Some df, current_user := Some user\<rparr>\<rparr>,
            MainPage None \<lparr>shown = df, statistics = metrics_of df,
                           confirm_dialog = (df \<noteq> [] \<and> show_confirm (session w))\<rparr>)"
proof -
  let ?w1 = "w\<lparr>session := (session w)
                \<lparr>logged_in := True, username := Some user,
                 display_name := Some (case r ''display_name'' of Some d \<Rightarrow> d | None \<Rightarrow> user)\<rparr>\<rparr>"
  from assms have 1: "main pf sha256_hexdigest (click (LoginSubmit user password)) w = (?w1, Rerun)"
    by (simp add: main_def login_page_def login_submit_def)
  from assms have 2: "main pf sha256_hexdigest (click NoClick) ?w1 =
           (w\<lparr>session := (session w)
                \<lparr>logged_in := True, username := Some user,
                 display_name := Some (case r ''display_name'' of Some d \<Rightarrow> d | None \<Rightarrow> user),
                 jobs_df := Some df, current_user := Some user\<rparr>\<rparr>,
            MainPage None \<lparr>shown = df, statistics = metrics_of df,
                           confirm_dialog = (df \<noteq> [] \<and> show_confirm (session w))\<rparr>)"
    by (simp add: main_def main_app_def initialize_jobs_def applications_section_def
        display_statistics_eq Let_def)
  from 1 2 show ?thesis by (simp add: interact_def rerun_inputs_click)
qed

lemma login_fails_to_load:
  assumes "\<not> logged_in (session w)" "jobs_df (session w) = None"
    and "user \<noteq> []" "password \<noteq> []"
    and "load_users (files w) user = Some r"
    and "r ''password'' = Some (hash_password sha256_hexdigest password)"
    and "load_data pf (files w) user = Inl e"
  shows "snd (interact pf sha256_hexdigest (click (LoginSubmit user password)) w) = Raised e"
proof -
  let ?w1 = "w\<lparr>session := (session w)
                \<lparr>logged_in := True, username := Some user,
                 display_name := Some (case r ''display_name'' of Some d \<Rightarrow> d | None \<Rightarrow> user)\<rparr>\<rparr>"
  from assms have 1: "main pf sha256_hexdigest (click (LoginSubmit user password)) w = (?w1, Rerun)"
    by (simp add: main_def login_page_def login_submit_def)
  from assms have 2: "snd (main pf sha256_hexdigest (click NoClick) ?w1) = Raised e"
    by (simp add: main_def main_app_def initialize_jobs_def Let_def)
  from 1 2 show ?thesis by (simp add: interact_def rerun_inputs_click)
qed

lemma yes_delete_click:
  assumes "authenticated u df w" "df \<noteq> []" "show_confirm (session w)"
    and "save_data pf (files w) u [] = Inr fs"
  shows "interact pf sha256_hexdigest (click YesDeleteClick) w =
           (w\<lparr>session := (session w)\<lparr>jobs_df := Some [], show_confirm := False\<rparr>, files := fs\<rparr>,
            MainPage None \<lparr>shown = [], statistics = metrics_of [], confirm_dialog = False\<rparr>)"
proof -
  let ?w1 = "w\<lparr>session := (session w)\<lparr>jobs_df := Some [], show_confirm := False\<rparr>, files := fs\<rparr>"
  from assms have l: "logged_in (session w)" by (simp add: authenticated_def)
  with assms have 1: "main pf sha256_hexdigest (click YesDeleteClick) w = (?w1, Rerun)"
    by (simp add: main_def main_app_authenticated[OF assms(1)] applications_section_def
        display_statistics_eq delete_all_def set_and_save_def set_show_confirm_def)
  from assms(1) have "authenticated u [] ?w1" by (simp add: authenticated_def)
  from page_click[OF this] have 2: "main pf sha256_hexdigest (click NoClick) ?w1 =
      (?w1, MainPage None \<lparr>shown = [], statistics = metrics_of [], confirm_dialog = False\<rparr>)"
    by simp
  from 1 2 show ?thesis by (simp add: interact_def rerun_inputs_click)
qed

lemma cancel_click:
  assumes "authenticated u df w" "df \<noteq> []" "show_confirm (session w)"
  shows "interact pf sha256_hexdigest (click CancelClick) w =
           (set_show_confirm False w,
            MainPage None \<lparr>shown = df, statistics = metrics_of df, confirm_dialog = False\<rparr>)"
proof -
  from assms have l: "logged_in (session w)" by (simp add: authenticated_def)
  with assms have 1: "main pf sha256_hexdigest (click CancelClick) w = (set_show_confirm False w, Rerun)"
    by (simp add: main_def main_app_authenticated[OF assms(1)] applications_section_def
        display_statistics_eq)
  have "authenticated u df (set_show_confirm False w)"
    using assms(1) by (rule authenticated_set_show_confirm)
  from page_click[OF this] have 2: "main pf sha256_hexdigest (click NoClick) (set_show_confirm False w) =
      (set_show_confirm False w,
       MainPage None \<lparr>shown = df, statistics = metrics_of df, confirm_dialog = False\<rparr>)"
    by (simp add: set_show_confirm_def)
  from 1 2 show ?thesis by (simp add: interact_def rerun_inputs_click)
qed

lemma save_changes_click:
  assumes "authenticated u df w" "df \<noteq> []"
    and "save_data pf (files w) u edited_df = Inr fs"
  shows "interact pf sha256_hexdigest (click (SaveChangesClick edited_df)) w =
           (w\<lparr>session := (session w)\<lparr>jobs_df := Some edited_df\<rparr>, files := fs\<rparr>,
            MainPage None \<lparr>shown = edited_df, statistics = metrics_of edited_df,
               confirm_dialog = (edited_df \<noteq> [] \<and> show_confirm (session w))\<rparr>)"
proof -
  let ?w1 = "w\<lparr>session := (session w)\<lparr>jobs_df := Some edited_df\<rparr>, files := fs\<rparr>"
  from assms have l: "logged_in (session w)" by (simp add: authenticated_def)
  with assms have 1: "main pf sha256_hexdigest (click (SaveChangesClick edited_df)) w = (?w1, Rerun)"
    by (simp add: main_def main_app_authenticated[OF assms(1)] applications_section_def
        display_statistics_eq save_changes_def set_and_save_def)
  from assms(1) have "authenticated u edited_df ?w1" by (simp add: authenticated_def)
  from page_click[OF this] have 2: "main pf sha256_hexdigest (click NoClick) ?w1 =
      (?w1, MainPage None \<lparr>shown = edited_df, statistics = metrics_of edited_df,
               confirm_dialog = (edited_df \<noteq> [] \<and> show_confirm (session w))\<rparr>)"
    by simp
  from 1 2 show ?thesis by (simp add: interact_def rerun_inputs_click)
qed

lemma add_click_fails:
  assumes "authenticated u df w" "company \<noteq> []" "job \<noteq> []"
    and "save_data pf (files w) u
           (df @ [\<lparr>company_name = company, job_title = job, status = st,
                   applied_date = applied, package = pkg\<rparr>]) = Inl e"
  shows "interact pf sha256_hexdigest (click (AddSubmit company job st applied pkg)) w =
           (w\<lparr>session := (session w)
                \<lparr>jobs_df := Some (df @ [\<lparr>company_name = company, job_title = job, status = st,
                                          applied_date = applied, package = pkg\<rparr>])\<rparr>\<rparr>,
            Raised e)"
proof -
  from assms have l: "logged_in (session w)" by (simp add: authenticated_def)
  with assms show ?thesis
    by (simp add: interact_def main_def main_app_authenticated[OF assms(1)]
        add_application_def set_and_save_def)
qed

lemma register_click:
  assumes "\<not> logged_in (session w)" "u \<noteq> []" "d \<noteq> []" "4 \<le> length p"
    and "load_users (files w) u = None"
  shows "interact pf sha256_hexdigest (click (RegisterSubmit u d p p)) w =
           (w\<lparr>files := save_users (files w)
                ((load_users (files w))
                   (u \<mapsto> [''password'' \<mapsto> hash_password sha256_hexdigest p,
                         ''display_name'' \<mapsto> d,
                         ''created_at'' \<mapsto> ''2024-02-01T12:00:00'']))\<rparr>,
            AccountCreated)"
proof -
  from assms(4) have "p \<noteq> []" by auto
  with assms show ?thesis
    by (simp add: interact_def main_def login_page_def register_submit_def domIff)
qed

lemma yes_delete_click_fails:
  assumes "authenticated u df w" "df \<noteq> []" "show_confirm (session w)"
    and "save_data pf (files w) u [] = Inl e"
  shows "interact pf sha256_hexdigest (click YesDeleteClick) w =
           (w\<lparr>session := (session w)\<lparr>jobs_df := Some []\<rparr>\<rparr>, Raised e)"
proof -
  from assms have l: "logged_in (session w)" by (simp add: authenticated_def)
  with assms show ?thesis
    by (simp add: interact_def main_def main_app_authenticated[OF assms(1)]
        applications_section_def display_statistics_eq delete_all_def set_and_save_def)
qed

lemma interactions_Nil [simp]: "interactions pf sha256_hexdigest [] w = w"
  by (simp add: interactions_def)

lemma interactions_Cons [simp]:
  "interactions pf sha256_hexdigest (inp # inps) w =
     interactions pf sha256_hexdigest inps (fst (interact pf sha256_hexdigest inp w))"
  by (simp add: interactions_def)

lemma reachable_interactions:
  "reachable pf sha256_hexdigest w \<Longrightarrow> reachable pf sha256_hexdigest (interactions pf sha256_hexdigest inps w)"
  by (induction inps arbitrary: w) (simp_all add: reachable.step)

text \<open>
  Logging out and logging in as another user loads that user's file: the frame of the
  session is then the frame loaded for the new user.
\<close>

lemma switch_user_reloads:
  assumes "logged_in (session w)" "user \<noteq> []" "password \<noteq> []"
    and "load_users (files w) user = Some r"
    and "r ''password'' = Some (hash_password sha256_hexdigest password)"
    and "load_data pf (files w) user = Inr df"
  shows "jobs_df (session (interactions pf sha256_hexdigest
            [click LogoutClick, click (LoginSubmit user password)] w)) = Some df \<and>
         username (session (interactions pf sha256_hexdigest
            [click LogoutClick, click (LoginSubmit user password)] w)) = Some user \<and>
         current_user (session (interactions pf sha256_hexdigest
            [click LogoutClick, click (LoginSubmit user password)] w)) = Some user"
proof -
  have 1: "fst (interact pf sha256_hexdigest (click LogoutClick) w) = logout w"
    using assms(1) by (simp add: logout_click)
  have 2: "interact pf sha256_hexdigest (click (LoginSubmit user password)) (logout w) =
           ((logout w)\<lparr>session := (session (logout w))
                \<lparr>logged_in := True, username := Some user,
                 display_name := Some (case r ''display_name'' of Some d \<Rightarrow> d | None \<Rightarrow> user),
                 jobs_df := Some df, current_user := Some user\<rparr>\<rparr>,
            MainPage None \<lparr>shown = df, statistics = metrics_of df,
                           confirm_dialog = (df \<noteq> [] \<and> show_confirm (session (logout w)))\<rparr>)"
    using assms by (intro login_click) (simp_all add: logout_def)
  from 1 2 show ?thesis by simp
qed

subsection \<open>Script runs preserve the session invariant\<close>

lemma session_set_and_save:
  "session (fst (set_and_save pf u df w)) = (session w)\<lparr>jobs_df := Some df\<rparr>"
  using set_and_save_cases[of pf w u df] by auto

lemma session_delete_all:
  "session (fst (delete_all pf u w)) = (session w)\<lparr>jobs_df := Some []\<rparr> \<or>
   session (fst (delete_all pf u w)) = (session w)\<lparr>jobs_df := Some [], show_confirm := False\<rparr>"
  using delete_all_cases[of pf u w] session_set_and_save[of pf u "[]" w]
  by (auto simp: set_show_confirm_def)

lemma set_and_save_invariant:
  "session_invariant w \<Longrightarrow> logged_in (session w) \<Longrightarrow>
   current_user (session w) = username (session w) \<Longrightarrow>
   session_invariant (fst (set_and_save pf u df w))"
  by (simp add: session_invariant_def session_set_and_save)

lemma delete_all_invariant:
  "session_invariant w \<Longrightarrow> logged_in (session w) \<Longrightarrow>
   current_user (session w) = username (session w) \<Longrightarrow>
   session_invariant (fst (delete_all pf u w))"
  using session_delete_all[of pf u w] by (auto simp: session_invariant_def)

lemma set_show_confirm_invariant [simp]:
  "session_invariant (set_show_confirm b w) = session_invariant w"
  by (simp add: session_invariant_def set_show_confirm_def)

lemma applications_section_invariant:
  assumes "session_invariant w" "logged_in (session w)"
    "current_user (session w) = username (session w)"
  shows "session_invariant (fst (applications_section pf inp u df err w))"
proof -
  have d: "session_invariant (fst (delete_all pf u (set_show_confirm b w)))" for b
    using assms by (intro delete_all_invariant) (simp_all add: set_show_confirm_def session_invariant_def)
  have d0: "session_invariant (fst (delete_all pf u w))"
    using assms by (intro delete_all_invariant)
  have s: "session_invariant (fst (save_changes pf u e w))" for e
    unfolding save_changes_def using assms by (intro set_and_save_invariant)
  from assms d d0 s show ?thesis
    by (simp add: applications_section_def Let_def display_statistics_eq
        split: sum.splits event.splits)
qed

lemma main_app_invariant:
  assumes "session_invariant w" "logged_in (session w)"
  shows "session_invariant (fst (main_app pf inp w))"
proof (cases "event inp = LogoutClick")
  case True
  then show ?thesis by (simp add: main_app_def logout_def session_invariant_def)
next
  case False
  define user where "user = (case username (session w) of Some u \<Rightarrow> u | None \<Rightarrow> ''None'')"
  show ?thesis
  proof (cases "initialize_jobs pf user w")
    case (Inl e)
    with False assms show ?thesis by (simp add: main_app_def user_def)
  next
    case (Inr w1)
    with assms have w1: "session_invariant w1" "logged_in (session w1)"
      "current_user (session w1) = username (session w1)" "jobs_df (session w1) \<noteq> None"
      by (auto simp: initialize_jobs_def session_invariant_def split: if_splits sum.splits)
    then obtain df where j: "jobs_df (session w1) = Some df" by auto
    have a: "session_invariant (fst (add_application pf user df r w1))" for r
      unfolding add_application_def using w1(1-3) by (intro set_and_save_invariant)
    have s: "session_invariant (fst (applications_section pf inp user df err w1))" for err
      using w1(1-3) by (rule applications_section_invariant)
    have r: "session_invariant (w1\<lparr>session := (session w1)\<lparr>jobs_df := Some df'\<rparr>\<rparr>)" for df'
      using w1 by (simp add: session_invariant_def)
    from False Inr j a s r w1(1) show ?thesis
      by (simp add: main_app_def user_def[symmetric] split: event.splits sum.splits)
  qed
qed

lemma login_page_invariant:
  assumes "session_invariant w" "\<not> logged_in (session w)"
  shows "session_invariant (fst (login_page sha256_hexdigest inp w))"
  using assms
  by (cases "event inp")
     (auto simp: login_page_def login_submit_def register_submit_def Let_def
        session_invariant_def split: option.splits)

lemma main_invariant:
  "session_invariant w \<Longrightarrow> session_invariant (fst (main pf sha256_hexdigest inp w))"
  by (simp add: main_def main_app_invariant login_page_invariant)

lemma interact_invariant:
  assumes "session_invariant w"
  shows "session_invariant (fst (interact pf sha256_hexdigest inp w))"
proof -
  obtain w' out where m: "main pf sha256_hexdigest inp w = (w', out)"
    by (cases "main pf sha256_hexdigest inp w")
  with main_invariant[OF assms, of pf sha256_hexdigest inp] have w': "session_invariant w'" by simp
  show ?thesis
  proof (cases "out = Rerun")
    case True
    with m main_invariant[OF w', of pf sha256_hexdigest "rerun_inputs inp"] show ?thesis
      by (simp add: interact_def)
  next
    case False
    with m w' show ?thesis by (cases out) (simp_all add: interact_def)
  qed
qed

lemma reachable_invariant: "reachable pf sha256_hexdigest w \<Longrightarrow> session_invariant w"
proof (induction rule: reachable.induct)
  case (start fs)
  show ?case by (simp add: session_invariant_def initial_session_def)
next
  case (step w inp)
  then show ?case by (simp add: interact_invariant)
qed

subsection \<open>Files of different users\<close>

text \<open>
  No sequence of mutations for one user changes what another user loads whenever the
  platform puts their files apart, as \<open>flat_platform\<close> does for two different usernames
  without a slash. Two usernames whose files are one file share it: what is saved for one is
  loaded for the other.
\<close>

lemma mutate_Raised:
  assumes "snd (mutate pf u w m) \<noteq> Rerun"
  shows "files (fst (mutate pf u w m)) = files w"
proof (cases m)
  case (Add r)
  with assms show ?thesis by (simp add: add_application_def set_and_save_Raised)
next
  case (ApplyEdits e)
  with assms show ?thesis by (simp add: save_changes_def set_and_save_Raised)
next
  case ClearAll
  with assms delete_all_cases[of pf u w] set_and_save_Raised[of pf u "[]" w]
  show ?thesis by auto
qed

lemma mutations_leave_other_files_alone:
  assumes "os_locate pf (get_user_data_file u1) \<noteq> os_locate pf (get_user_data_file u2)"
  shows "load_data pf (files (mutations pf u1 w ms)) u2 = load_data pf (files w) u2"
proof -
  have step: "load_data pf (files (fst (mutate pf u1 w0 m))) u2 = load_data pf (files w0) u2"
    for w0 m
  proof (cases "snd (mutate pf u1 w0 m) = Rerun")
    case True
    from load_data_after_save_other[OF mutate_Rerun[OF True] assms] show ?thesis .
  next
    case False
    then show ?thesis by (simp add: mutate_Raised)
  qed
  have "load_data pf (files (foldl (\<lambda>w m. fst (mutate pf u1 w m)) w ms)) u2 =
        load_data pf (files w) u2"
    by (induction ms arbitrary: w) (simp_all add: step)
  then show ?thesis by (simp add: mutations_def)
qed

lemma flat_platform_separates:
  assumes "u1 \<noteq> u2" "CHR ''/'' \<notin> set u1" "CHR ''/'' \<notin> set u2"
  shows "os_locate flat_platform (get_user_data_file u1) \<noteq>
         os_locate flat_platform (get_user_data_file u2)"
  using assms by (simp add: flat_platform_def get_user_data_file_def)

lemma save_for_one_load_for_other:
  assumes "os_locate pf (get_user_data_file u1) = Some loc"
    and "os_locate pf (get_user_data_file u2) = Some loc"
    and "os_writable pf loc" "loadable_rows pf df"
  shows "\<not> isl (save_data pf fs u1 df) \<and>
         load_data pf (projr (save_data pf fs u1 df)) u2 = Inr df"
proof -
  from assms have s: "save_data pf fs u1 df =
      Inr (fs\<lparr>data_files := (data_files fs)(loc \<mapsto> map store_row df)\<rparr>)"
    by (simp add: save_data_def)
  from assms(2,4) have "load_data pf (fs\<lparr>data_files := (data_files fs)(loc \<mapsto> map store_row df)\<rparr>) u2
      = Inr df"
    by (cases "df = []") (simp_all add: load_data_def parse_rows_store_rows)
  with s show ?thesis by simp
qed

subsection \<open>Facts about the examples\<close>

lemma load_users_example [simp]:
  "load_users example_files = [''alice'' \<mapsto> alice_record, ''bob'' \<mapsto> bob_record]"
  by (simp add: example_files_def load_users_def)

lemma os_locate_flat:
  "os_locate flat_platform name = (if CHR ''/'' \<in> set name then None else Some [name])"
  by (simp add: flat_platform_def)

lemma os_writable_flat [simp]: "os_writable flat_platform loc"
  by (simp add: flat_platform_def)

lemma loadable_flat: "loadable_date flat_platform d = (valid_date d \<and> in_ns_range d)"
  by (simp add: loadable_date_def flat_platform_def)

lemma loadable_acme [simp]: "loadable_date flat_platform (applied_date acme)"
  by (simp add: loadable_flat acme_def valid_date_def days_in_month_def in_ns_range_def
      date_le_def)

lemma loadable_interviewing [simp]: "loadable_date flat_platform (applied_date interviewing)"
  using loadable_acme by (simp add: interviewing_def)

lemma loadable_ghosted [simp]: "loadable_date flat_platform (applied_date ghosted)"
  using loadable_acme by (simp add: ghosted_def)

lemma loadable_ghosted_edited [simp]: "loadable_date flat_platform (applied_date ghosted_edited)"
  using loadable_ghosted by (simp add: ghosted_edited_def)

lemma loadable_xyz [simp]: "loadable_date flat_platform (applied_date xyz)"
  by (simp add: loadable_flat xyz_def valid_date_def days_in_month_def in_ns_range_def
      date_le_def)

lemma load_example_alice: "load_data flat_platform example_files ''alice'' = Inr [acme]"
  by (simp add: load_data_def get_user_data_file_def os_locate_flat example_files_def
      parse_row_store_row)

lemma load_example_bob: "load_data flat_platform example_files ''bob'' = Inr [interviewing]"
  by (simp add: load_data_def get_user_data_file_def os_locate_flat example_files_def
      parse_row_store_row)

lemma authenticated_alice: "authenticated ''alice'' [acme] alice_world"
  by (simp add: authenticated_def alice_world_def)

lemma authenticated_tracked: "authenticated ''alice'' [acme, interviewing, xyz] tracked_world"
  by (simp add: authenticated_def tracked_world_def alice_world_def)

lemma metrics_tracked:
  "metrics_of [acme, interviewing, xyz] =
     \<lparr>total_apps = 3, interview_count = 1, offers = 1, pending = 1\<rparr>"
  by code_simp

lemma compile_alternation:
  "compile_pattern flat_platform ''a|b'' True =
     Some (\<lambda>s. sublist ''a'' (lower s) \<or> sublist ''b'' (lower s))"
  by (simp add: compile_pattern_def special_chars_def flat_platform_def example_re_library_def)

lemma compile_unclosed: "compile_pattern flat_platform ''('' True = None"
  by (simp add: compile_pattern_def special_chars_def flat_platform_def example_re_library_def)

lemma filter_alternation:
  "apply_filters flat_platform [acme, interviewing, xyz] ''a|b'' ''All'' = Inr [acme, interviewing]"
  by code_simp

lemma filter_offers:
  "apply_filters flat_platform [acme, interviewing, xyz] [] ''Offer Received'' = Inr [xyz]"
  by code_simp

lemma event_searching [simp]: "event (searching q f) = NoClick"
  by (simp add: searching_def click_def)

lemma search_query_searching [simp]: "search_query (searching q f) = q"
  by (simp add: searching_def)

lemma status_filter_searching [simp]: "status_filter (searching q f) = f"
  by (simp add: searching_def)

lemma ghosted_foreign: "status ghosted_edited \<notin> set STATUS_OPTIONS"
  by (simp add: ghosted_edited_def ghosted_def STATUS_OPTIONS_def)

lemma locate_alice: "os_locate flat_platform (get_user_data_file ''alice'') = Some [''jobs_alice.json'']"
  by (simp add: os_locate_flat get_user_data_file_def)

lemma locate_bob: "os_locate flat_platform (get_user_data_file ''bob'') = Some [''jobs_bob.json'']"
  by (simp add: os_locate_flat get_user_data_file_def)

lemma locate_slash: "os_locate flat_platform (get_user_data_file ''a/b'') = None"
  by (simp add: os_locate_flat get_user_data_file_def)

lemma locate_folding_alice:
  "os_locate folding_platform (get_user_data_file ''alice'') = Some [''jobs_alice.json'']"
  by code_simp

lemma locate_folding_Alice:
  "os_locate folding_platform (get_user_data_file ''Alice'') = Some [''jobs_alice.json'']"
  by code_simp

lemma locate_subdir_one_slash:
  "os_locate subdir_platform (get_user_data_file ''a/b'') = Some [''jobs_a'', ''b.json'']"
  by code_simp

lemma locate_subdir_two_slashes:
  "os_locate subdir_platform (get_user_data_file ''a//b'') = Some [''jobs_a'', ''b.json'']"
  by code_simp

lemma writable_folding [simp]: "os_writable folding_platform loc"
  by (simp add: folding_platform_def flat_platform_def)

lemma writable_subdir [simp]: "os_writable subdir_platform loc"
  by (simp add: subdir_platform_def flat_platform_def)

lemma loadable_folding [simp]: "loadable_date folding_platform d = loadable_date flat_platform d"
  by (simp add: loadable_date_def folding_platform_def flat_platform_def)

lemma loadable_subdir [simp]: "loadable_date subdir_platform d = loadable_date flat_platform d"
  by (simp add: loadable_date_def subdir_platform_def flat_platform_def)

lemma valid_ancient: "valid_date (applied_date ancient)"
  by (simp add: ancient_def valid_date_def days_in_month_def)

lemma ancient_out_of_range: "\<not> pd_timestamp_range flat_platform (applied_date ancient)"
  by (simp add: ancient_def flat_platform_def in_ns_range_def date_le_def)

lemma ancient_text: "date_str (applied_date ancient) = ''1600-01-01''"
  by code_simp

lemma authenticated_ghosted: "authenticated ''alice'' [ghosted] ghosted_world"
  by (simp add: authenticated_def ghosted_world_def alice_world_def)

lemma load_ghosted: "load_data flat_platform (files ghosted_start) ''alice'' = Inr [ghosted]"
  by (simp add: load_data_def locate_alice ghosted_start_def parse_row_store_row)

lemma login_ghosted:
  "fst (interact flat_platform example_digest (click (LoginSubmit ''alice'' ''pass1234''))
          ghosted_start) = ghosted_world"
  by (subst login_click[where r=alice_record and df="[ghosted]"])
     (simp_all add: load_ghosted,
      simp_all add: ghosted_start_def ghosted_world_def alice_world_def initial_session_def
        alice_record_def hash_password_def load_users_def example_files_def)

lemma authenticated_pending: "authenticated ''bob'' [interviewing] pending_world"
  by (simp add: authenticated_def pending_world_def)

lemma request_logout_login:
  "interactions flat_platform example_digest
     [click ClearAllClick, click LogoutClick, click (LoginSubmit ''bob'' ''hunter22'')] alice_world =
   pending_world"
proof -
  have 1: "fst (interact flat_platform example_digest (click ClearAllClick) alice_world) =
             set_show_confirm True alice_world"
    by (simp add: clear_all_click[OF authenticated_alice])
  have 2: "fst (interact flat_platform example_digest (click LogoutClick)
                  (set_show_confirm True alice_world)) = logout (set_show_confirm True alice_world)"
    by (simp add: logout_click set_show_confirm_def alice_world_def)
  have 3: "fst (interact flat_platform example_digest (click (LoginSubmit ''bob'' ''hunter22''))
                  (logout (set_show_confirm True alice_world))) = pending_world"
    by (subst login_click[where r=bob_record and df="[interviewing]"])
       (simp_all add: logout_def set_show_confirm_def alice_world_def load_example_bob
          bob_record_def hash_password_def pending_world_def)
  from 1 2 3 show ?thesis by simp
qed

lemma authenticated_slash: "authenticated ''a/b'' [] slash_world"
  by (simp add: authenticated_def slash_world_def)

lemma register_login_slash:
  "interactions flat_platform example_digest
     [click (RegisterSubmit ''a/b'' ''Ab'' ''pass1234'' ''pass1234''),
      click (LoginSubmit ''a/b'' ''pass1234'')] empty_world = slash_world"
proof -
  let ?r = "[''password'' \<mapsto> example_digest ''pass1234'', ''display_name'' \<mapsto> ''Ab'',
             ''created_at'' \<mapsto> ''2024-02-01T12:00:00'']"
  let ?w = "\<lparr>session = initial_session,
             files = \<lparr>users_file = Some [''a/b'' \<mapsto> ?r], data_files = Map.empty\<rparr>\<rparr>"
  have 1: "fst (interact flat_platform example_digest
                  (click (RegisterSubmit ''a/b'' ''Ab'' ''pass1234'' ''pass1234'')) empty_world) = ?w"
    by (subst register_click)
       (simp_all add: empty_world_def initial_session_def load_users_def save_users_def
          hash_password_def)
  have 2: "fst (interact flat_platform example_digest (click (LoginSubmit ''a/b'' ''pass1234'')) ?w)
             = slash_world"
    by (subst login_click[where r="?r" and df="[]"])
       (simp_all add: initial_session_def load_users_def hash_password_def load_data_def
          locate_slash slash_world_def)
  from 1 2 show ?thesis by simp
qed

lemma authenticated_unsaved: "authenticated ''a/b'' [acme] unsaved_world"
  by (simp add: authenticated_def unsaved_world_def slash_world_def)

lemma parse_row_readonly:
  "parse_row readonly_platform r = parse_row flat_platform r"
  by (simp add: parse_row_def to_datetime_date_def readonly_platform_def)

lemma parse_rows_readonly:
  "parse_rows readonly_platform rs = parse_rows flat_platform rs"
  by (induction rs) (simp_all add: parse_row_readonly split: option.splits)

lemma load_readonly [simp]: "load_data readonly_platform fs u = load_data flat_platform fs u"
proof -
  have "os_locate readonly_platform = os_locate flat_platform"
    by (simp add: readonly_platform_def)
  then show ?thesis by (simp add: load_data_def parse_rows_readonly split: option.splits)
qed

lemma save_readonly: "save_data readonly_platform fs ''alice'' df = Inl OpenFailed"
  by (simp add: save_data_def readonly_platform_def split: option.splits)

section \<open>The claims\<close>

subsection \<open>C1: logging in\<close>

text \<open>
  Claim C1, as amended. For a non-empty username and a non-empty password the login
  succeeds (the run ends in a rerun with the session logged in as that user) exactly when
  \<^verbatim>\<open>users.json\<close> holds a record for the username whose \<^verbatim>\<open>password\<close> entry equals the
  digest of the password. Every other such attempt is answered with \<open>InvalidCredentials\<close>
  and changes nothing, provided the record found has a \<^verbatim>\<open>password\<close> entry. The password
  enters the decision only through its digest: two non-empty passwords with the same
  digest give the same result. When the username or the password is empty the page
  answers with \<open>MissingCredentials\<close> instead, without reading the store.
\<close>

theorem login_outcome:
  assumes "event inp = LoginSubmit user password"
  shows
    "(user = [] \<or> password = [] \<longrightarrow>
        login_page sha256_hexdigest inp w = (w, LoginPage (Some MissingCredentials))) \<and>
     (user \<noteq> [] \<and> password \<noteq> [] \<longrightarrow>
        ((snd (login_page sha256_hexdigest inp w) = Rerun) =
           (\<exists>r. load_users (files w) user = Some r \<and>
                r ''password'' = Some (hash_password sha256_hexdigest password))) \<and>
        (snd (login_page sha256_hexdigest inp w) = Rerun \<longrightarrow>
           logged_in (session (fst (login_page sha256_hexdigest inp w))) \<and>
           username (session (fst (login_page sha256_hexdigest inp w))) = Some user) \<and>
        (snd (login_page sha256_hexdigest inp w) \<noteq> Rerun \<and>
         (\<forall>r. load_users (files w) user = Some r \<longrightarrow> r ''password'' \<noteq> None) \<longrightarrow>
           login_page sha256_hexdigest inp w = (w, LoginPage (Some InvalidCredentials))) \<and>
        (\<forall>inp' password'.
           event inp' = LoginSubmit user password' \<and> password' \<noteq> [] \<and>
           hash_password sha256_hexdigest password' = hash_password sha256_hexdigest password \<longrightarrow>
           login_page sha256_hexdigest inp' w = login_page sha256_hexdigest inp w))"
  using assms
  by (auto simp: login_page_def login_submit_def Let_def split: option.splits)

text \<open>
  Instances of C1: the right password, a wrong password, and an unknown user.
\<close>

theorem login_outcome_witness:
  "snd (login_page example_digest (click (LoginSubmit ''alice'' ''pass1234'')) fresh_world) = Rerun \<and>
   login_page example_digest (click (LoginSubmit ''alice'' ''letmein'')) fresh_world =
     (fresh_world, LoginPage (Some InvalidCredentials)) \<and>
   login_page example_digest (click (LoginSubmit ''carol'' ''pass1234'')) fresh_world =
     (fresh_world, LoginPage (Some InvalidCredentials))"
proof -
  have f: "load_users (files fresh_world) = [''alice'' \<mapsto> alice_record, ''bob'' \<mapsto> bob_record]"
    by (simp add: fresh_world_def)
  have ne: "''alice'' \<noteq> []" "''carol'' \<noteq> []" "''pass1234'' \<noteq> []" "''letmein'' \<noteq> []"
    by simp_all
  have yes: "\<exists>r. load_users (files fresh_world) ''alice'' = Some r \<and>
               r ''password'' = Some (hash_password example_digest ''pass1234'')"
    by (simp add: f alice_record_def hash_password_def)
  have no: "\<not> (\<exists>r. load_users (files fresh_world) ''alice'' = Some r \<and>
                  r ''password'' = Some (hash_password example_digest ''letmein''))"
    by (simp add: f alice_record_def hash_password_def example_digest_def)
  have pw: "\<forall>r. load_users (files fresh_world) ''alice'' = Some r \<longrightarrow> r ''password'' \<noteq> None"
    by (simp add: f alice_record_def)
  have un: "load_users (files fresh_world) ''carol'' = None"
    by (simp add: f)
  have 1: "snd (login_page example_digest (click (LoginSubmit ''alice'' ''pass1234'')) fresh_world)
             = Rerun"
    using login_outcome[where inp="click (LoginSubmit ''alice'' ''pass1234'')"
        and user="''alice''" and password="''pass1234''" and w=fresh_world
        and sha256_hexdigest=example_digest, OF event_click] ne yes
    by blast
  have 2: "login_page example_digest (click (LoginSubmit ''alice'' ''letmein'')) fresh_world =
             (fresh_world, LoginPage (Some InvalidCredentials))"
    using login_outcome[where inp="click (LoginSubmit ''alice'' ''letmein'')"
        and user="''alice''" and password="''letmein''" and w=fresh_world
        and sha256_hexdigest=example_digest, OF event_click] ne no pw
    by blast
  have 3: "login_page example_digest (click (LoginSubmit ''carol'' ''pass1234'')) fresh_world =
             (fresh_world, LoginPage (Some InvalidCredentials))"
    using login_outcome[where inp="click (LoginSubmit ''carol'' ''pass1234'')"
        and user="''carol''" and password="''pass1234''" and w=fresh_world
        and sha256_hexdigest=example_digest, OF event_click] ne un
    by (metis option.distinct(1))
  from 1 2 3 show ?thesis by blast
qed

text \<open>
  C1 as first stated fails: a registered user who submits an empty password is not
  answered with \<open>InvalidCredentials\<close> but with the separate message for missing input.
\<close>

theorem login_empty_password_counterexample:
  "login_page example_digest (click (LoginSubmit ''alice'' [])) fresh_world =
     (fresh_world, LoginPage (Some MissingCredentials)) \<and>
   LoginPage (Some MissingCredentials) \<noteq> LoginPage (Some InvalidCredentials)"
  by (simp add: login_page_def login_submit_def click_def)

subsection \<open>C2: what was saved is what is loaded\<close>

text \<open>
  Claim C2 says that after any sequence of mutations ending in a persist, a load in a
  fresh session returns the persisted frame, dates included, and that a user without a
  file loads the empty frame. The second part holds, and so does the first for dates the
  timestamps of the installed library hold (\<open>load_after_persist\<close> above). On a platform
  whose timestamps count nanoseconds, \<open>flat_platform\<close> here, the first part fails: the
  editor hands over a row dated 1 January 1600, a date Python builds; Save Changes stores
  it as \<^verbatim>\<open>1600-01-01\<close> and ends in a rerun; loading that file raises instead of
  returning the row, and so does her next login in a fresh session.
\<close>

theorem date_outside_timestamp_range_not_loaded:
  "valid_date (applied_date ancient) \<and>
   date_str (applied_date ancient) = ''1600-01-01'' \<and>
   snd (mutate flat_platform ''alice'' alice_world (ApplyEdits [ancient])) = Rerun \<and>
   snapshot (fst (mutate flat_platform ''alice'' alice_world (ApplyEdits [ancient]))) = [ancient] \<and>
   data_files (files (fst (mutate flat_platform ''alice'' alice_world (ApplyEdits [ancient]))))
     [''jobs_alice.json''] = Some (map store_row [ancient]) \<and>
   load_data flat_platform
     (files (fst (mutate flat_platform ''alice'' alice_world (ApplyEdits [ancient])))) ''alice'' =
     Inl DateParseError \<and>
   snd (interact flat_platform example_digest (click (LoginSubmit ''alice'' ''pass1234''))
          \<lparr>session = initial_session,
           files = files (fst (mutate flat_platform ''alice'' alice_world (ApplyEdits [ancient])))\<rparr>) =
     Raised DateParseError"
proof -
  have m: "mutate flat_platform ''alice'' alice_world (ApplyEdits [ancient]) =
     (alice_world\<lparr>session := (session alice_world)\<lparr>jobs_df := Some [ancient]\<rparr>,
        files := (files alice_world)\<lparr>data_files := (data_files (files alice_world))
                   ([''jobs_alice.json''] \<mapsto> map store_row [ancient])\<rparr>\<rparr>, Rerun)"
    by (simp add: save_changes_def set_and_save_def save_data_def locate_alice)
  have p: "parse_row flat_platform (store_row ancient) = None"
    using to_datetime_date_out_of_range[OF valid_ancient ancient_out_of_range]
    by (simp add: parse_row_def store_row_def)
  have l: "load_data flat_platform
     ((files alice_world)\<lparr>data_files := (data_files (files alice_world))
                   ([''jobs_alice.json''] \<mapsto> map store_row [ancient])\<rparr>) ''alice'' = Inl DateParseError"
    by (simp add: load_data_def locate_alice p)
  have f: "snd (interact flat_platform example_digest (click (LoginSubmit ''alice'' ''pass1234''))
          \<lparr>session = initial_session,
           files = (files alice_world)\<lparr>data_files := (data_files (files alice_world))
                   ([''jobs_alice.json''] \<mapsto> map store_row [ancient])\<rparr>\<rparr>) =
     Raised DateParseError"
  proof (rule login_fails_to_load[where r=alice_record])
    show "load_data flat_platform
            (files \<lparr>session = initial_session,
               files = (files alice_world)\<lparr>data_files := (data_files (files alice_world))
                   ([''jobs_alice.json''] \<mapsto> map store_row [ancient])\<rparr>\<rparr>) ''alice'' =
          Inl DateParseError"
      using l by simp
  qed (simp_all add: initial_session_def alice_world_def load_users_def example_files_def
        alice_record_def hash_password_def)
  from m l f valid_ancient ancient_text show ?thesis by (simp add: snapshot_def)
qed

subsection \<open>C3: the metrics ignore the filters\<close>

text \<open>
  Claim C3. Whenever a run of the main page draws the page, whatever the search text and
  the status selector, the four metrics are computed from the whole frame of the session,
  of which the rows shown are the filtered part: the total is the number of rows, the
  interview count the number of rows whose status contains \<^verbatim>\<open>Interview\<close>, the offer
  count the number of rows whose status is \<^verbatim>\<open>Offer Received\<close>, the pending count the
  number of rows whose status is \<^verbatim>\<open>Applied\<close>. And the page is drawn: for a session that
  holds a frame, a run without a click draws it with these metrics of that frame and
  leaves the state as it was, for every status selector and every search text but one
  that the regular-expression library refuses to compile, for which the run ends in that
  library's exception before anything is shown.
\<close>

theorem metrics_from_full_snapshot:
  "(main_app pf inp w = (w', MainPage err v) \<longrightarrow>
      (\<exists>df. jobs_df (session w') = Some df \<and>
            apply_filters pf df (search_query inp) (status_filter inp) = Inr (shown v) \<and>
            statistics v =
              \<lparr>total_apps = length df,
               interview_count = length (filter (\<lambda>r. sublist ''Interview'' (status r)) df),
               offers = length (filter (\<lambda>r. status r = ''Offer Received'') df),
               pending = length (filter (\<lambda>r. status r = ''Applied'') df)\<rparr>)) \<and>
   (authenticated u df0 w \<and> event inp = NoClick \<longrightarrow>
      (\<exists>v0. main_app pf inp w = (w, MainPage None v0) \<and>
            statistics v0 =
              \<lparr>total_apps = length df0,
               interview_count = length (filter (\<lambda>r. sublist ''Interview'' (status r)) df0),
               offers = length (filter (\<lambda>r. status r = ''Offer Received'') df0),
               pending = length (filter (\<lambda>r. status r = ''Applied'') df0)\<rparr>) \<or>
      (main_app pf inp w = (w, Raised ReError) \<and> search_query inp \<noteq> [] \<and>
       compile_pattern pf (search_query inp) True = None))"
proof -
  have 1: "\<exists>df. jobs_df (session w') = Some df \<and>
            apply_filters pf df (search_query inp) (status_filter inp) = Inr (shown v) \<and>
            statistics v = metrics_of df"
    if "main_app pf inp w = (w', MainPage err v)"
  proof -
    from that obtain w1 df err0 u where
      j: "jobs_df (session w1) = Some df" and
      a: "applications_section pf inp u df err0 w1 = (w', MainPage err v)"
      by (rule main_app_MainPage)
    from applications_section_MainPage[OF a] j show ?thesis by auto
  qed
  have 2: "(\<exists>v0. main_app pf inp w = (w, MainPage None v0) \<and> statistics v0 = metrics_of df0) \<or>
      (main_app pf inp w = (w, Raised ReError) \<and> search_query inp \<noteq> [] \<and>
       compile_pattern pf (search_query inp) True = None)"
    if a: "authenticated u df0 w" and e: "event inp = NoClick"
  proof -
    from e have m: "main_app pf inp w = applications_section pf inp u df0 None w"
      by (simp add: main_app_authenticated[OF a])
    from apply_filters_cases[of pf df0 "search_query inp" "status_filter inp"] show ?thesis
    proof
      assume "\<exists>fd. apply_filters pf df0 (search_query inp) (status_filter inp) = Inr fd"
      then obtain fd where "apply_filters pf df0 (search_query inp) (status_filter inp) = Inr fd" ..
      with e have "\<exists>v0. applications_section pf inp u df0 None w = (w, MainPage None v0) \<and>
                       statistics v0 = metrics_of df0"
        by (simp add: applications_section_def display_statistics_eq)
      with m show ?thesis by simp
    next
      assume "apply_filters pf df0 (search_query inp) (status_filter inp) = Inl ReError \<and>
              search_query inp \<noteq> [] \<and> compile_pattern pf (search_query inp) True = None"
      with m show ?thesis by (simp add: applications_section_def)
    qed
  qed
  from 1 2 show ?thesis by (auto simp: metrics_of_def)
qed

text \<open>
  Instances of C3, for a frame of three rows: a search with an alternation shows two of
  them, the status selector alone shows the third, and the metrics are those of the three
  rows both times. A search text that is an unclosed parenthesis shows nothing.
\<close>

theorem metrics_from_full_snapshot_witness:
  "(\<exists>v. main_app flat_platform (searching ''a|b'' ''All'') tracked_world =
           (tracked_world, MainPage None v) \<and>
        shown v = [acme, interviewing] \<and>
        statistics v = \<lparr>total_apps = 3, interview_count = 1, offers = 1, pending = 1\<rparr>) \<and>
   (\<exists>v. main_app flat_platform (searching [] ''Offer Received'') tracked_world =
           (tracked_world, MainPage None v) \<and>
        shown v = [xyz] \<and>
        statistics v = \<lparr>total_apps = 3, interview_count = 1, offers = 1, pending = 1\<rparr>) \<and>
   main_app flat_platform (searching ''('' ''All'') tracked_world = (tracked_world, Raised ReError)"
proof -
  note a = authenticated_tracked
  have j: "jobs_df (session tracked_world) = Some [acme, interviewing, xyz]"
    using a by (simp add: authenticated_def)
  have run: "(\<exists>v0. main_app flat_platform (searching q f) tracked_world =
                   (tracked_world, MainPage None v0)) \<or>
             (main_app flat_platform (searching q f) tracked_world = (tracked_world, Raised ReError) \<and>
              search_query (searching q f) \<noteq> [] \<and>
              compile_pattern flat_platform (search_query (searching q f)) True = None)" for q f
    using metrics_from_full_snapshot[where pf=flat_platform and inp="searching q f"
        and w=tracked_world and u="''alice''" and ?df0.0="[acme, interviewing, xyz]"]
      a event_searching[of q f]
    by blast
  have drawn: "apply_filters flat_platform [acme, interviewing, xyz] q f = Inr (shown v0) \<and>
               statistics v0 = metrics_of [acme, interviewing, xyz]"
    if m: "main_app flat_platform (searching q f) tracked_world = (tracked_world, MainPage None v0)"
    for q f v0
  proof -
    have "\<exists>df. jobs_df (session tracked_world) = Some df \<and>
            apply_filters flat_platform df (search_query (searching q f))
              (status_filter (searching q f)) = Inr (shown v0) \<and>
            statistics v0 = metrics_of df"
      unfolding metrics_of_def
      using metrics_from_full_snapshot[where pf=flat_platform and inp="searching q f"
          and w=tracked_world and w'=tracked_world and err=None and v=v0] m
      by blast
    with j show ?thesis by auto
  qed
  have page: "\<exists>v. main_app flat_platform (searching q f) tracked_world =
           (tracked_world, MainPage None v) \<and> shown v = fd \<and>
        statistics v = \<lparr>total_apps = 3, interview_count = 1, offers = 1, pending = 1\<rparr>"
    if c: "q = [] \<or> compile_pattern flat_platform q True \<noteq> None"
      and f: "apply_filters flat_platform [acme, interviewing, xyz] q f = Inr fd" for q f fd
  proof -
    from run[of q f] c obtain v0 where
      m: "main_app flat_platform (searching q f) tracked_world = (tracked_world, MainPage None v0)"
      by auto
    from drawn[OF m] f m show ?thesis by (auto simp: metrics_tracked)
  qed
  have 1: "\<exists>v. main_app flat_platform (searching ''a|b'' ''All'') tracked_world =
           (tracked_world, MainPage None v) \<and> shown v = [acme, interviewing] \<and>
        statistics v = \<lparr>total_apps = 3, interview_count = 1, offers = 1, pending = 1\<rparr>"
    by (rule page) (simp_all add: compile_alternation filter_alternation)
  have 2: "\<exists>v. main_app flat_platform (searching [] ''Offer Received'') tracked_world =
           (tracked_world, MainPage None v) \<and> shown v = [xyz] \<and>
        statistics v = \<lparr>total_apps = 3, interview_count = 1, offers = 1, pending = 1\<rparr>"
    by (rule page) (simp_all add: filter_offers)
  have n: "main_app flat_platform (searching ''('' ''All'') tracked_world \<noteq>
             (tracked_world, MainPage None v0)" for v0
  proof
    assume "main_app flat_platform (searching ''('' ''All'') tracked_world =
              (tracked_world, MainPage None v0)"
    from drawn[OF this] show False by (simp add: apply_filters_ReError compile_unclosed)
  qed
  from run[of "''(''" "''All''"] n
  have 3: "main_app flat_platform (searching ''('' ''All'') tracked_world =
             (tracked_world, Raised ReError)"
    by blast
  from 1 2 3 show ?thesis by blast
qed

subsection \<open>C4: the search box\<close>

text \<open>
  Claim C4 reads the search as a case-insensitive substring test. For a search text
  without special characters that is what \<open>apply_filters\<close> computes
  (\<open>apply_filters_plain\<close> above, together with the exact status test, the conjunction
  and the order of the rows). The search text is however compiled as a regular
  expression: on every platform, searching for a single dot keeps a row neither of whose
  fields contains a dot.
\<close>

theorem search_dot_retains_row_without_dot:
  "apply_filters pf [acme] ''.'' ''All'' = Inr [acme] \<and>
   \<not> sublist (lower ''.'') (lower (company_name acme)) \<and>
   \<not> sublist (lower ''.'') (lower (job_title acme))"
proof -
  have a: "apply_filters pf [acme] ''.'' ''All'' = Inr [acme]"
    by (simp add: apply_filters_def str_contains_def compile_pattern_def boolean_index_def
        acme_def)
  have b: "\<not> sublist (lower ''.'') (lower (company_name acme))"
    by code_simp
  have c: "\<not> sublist (lower ''.'') (lower (job_title acme))"
    by code_simp
  from a b c show ?thesis by simp
qed

subsection \<open>C5: registering\<close>



subsection \<open>C6: one file per user\<close>

text \<open>
  Claim C6 says that saves for one username never change what another username loads.
  That holds where the platform puts the two files apart
  (\<open>mutations_leave_other_files_alone\<close> and \<open>flat_platform_separates\<close> above). The file
  is found by a path built from the username as typed, and different usernames can denote
  one file. On a file system that ignores case, \<open>alice\<close> and \<open>Alice\<close> share a file:
  \<open>Alice\<close> loads the rows of \<open>alice\<close>, and after a save for \<open>Alice\<close> the user \<open>alice\<close>
  loads what \<open>Alice\<close> saved. Where the directory \<^verbatim>\<open>data/jobs_a\<close> exists, the usernames
  \<^verbatim>\<open>a/b\<close> and \<^verbatim>\<open>a//b\<close> share a file in the same way.
\<close>

theorem usernames_share_a_file:
  "''alice'' \<noteq> ''Alice'' \<and>
   load_data folding_platform example_files ''alice'' = Inr [acme] \<and>
   load_data folding_platform example_files ''Alice'' = Inr [acme] \<and>
   \<not> isl (save_data folding_platform example_files ''Alice'' [xyz]) \<and>
   load_data folding_platform
     (projr (save_data folding_platform example_files ''Alice'' [xyz])) ''alice'' = Inr [xyz] \<and>
   ''a/b'' \<noteq> ''a//b'' \<and>
   load_data subdir_platform example_files ''a//b'' = Inr [] \<and>
   \<not> isl (save_data subdir_platform example_files ''a/b'' [xyz]) \<and>
   load_data subdir_platform
     (projr (save_data subdir_platform example_files ''a/b'' [xyz])) ''a//b'' = Inr [xyz]"
proof -
  have 1: "load_data folding_platform example_files ''alice'' = Inr [acme]"
    by (simp add: load_data_def locate_folding_alice example_files_def parse_row_store_row)
  have 2: "load_data folding_platform example_files ''Alice'' = Inr [acme]"
    by (simp add: load_data_def locate_folding_Alice example_files_def parse_row_store_row)
  have 3: "\<not> isl (save_data folding_platform example_files ''Alice'' [xyz]) \<and>
     load_data folding_platform
       (projr (save_data folding_platform example_files ''Alice'' [xyz])) ''alice'' = Inr [xyz]"
    by (rule save_for_one_load_for_other[OF locate_folding_Alice locate_folding_alice])
       (simp_all add: loadable_rows_def)
  have 4: "load_data subdir_platform example_files ''a//b'' = Inr []"
    by (simp add: load_data_def locate_subdir_two_slashes example_files_def)
  have 5: "\<not> isl (save_data subdir_platform example_files ''a/b'' [xyz]) \<and>
     load_data subdir_platform
       (projr (save_data subdir_platform example_files ''a/b'' [xyz])) ''a//b'' = Inr [xyz]"
    by (rule save_for_one_load_for_other[OF locate_subdir_one_slash locate_subdir_two_slashes])
       (simp_all add: loadable_rows_def)
  from 1 2 3 4 5 show ?thesis by simp
qed

subsection \<open>C7: saving the edited table\<close>

text \<open>
  Claim C7, as amended. Save Changes checks no status. Whenever the button is on the page
  (the session holds a frame and the filtered frame is not empty) and it is clicked, the
  frame the editor returns replaces the frame of the session as given, every row with the
  status it carries, whether or not the save that follows goes through. The run ends in a
  rerun exactly when the user's file can be opened for writing, and then the file holds
  the rows of the edited frame, each with its status, and the state after the rerun is
  the state the run left. Otherwise the run ends in the exception of \<^verbatim>\<open>open\<close> and the files
  are as they were. No outcome of the run is a rejection of a status.
\<close>

theorem save_changes_keeps_any_status:
  assumes "authenticated u df w"
    and "apply_filters pf df (search_query inp) (status_filter inp) = Inr filtered_df"
    and "filtered_df \<noteq> []"
    and "event inp = SaveChangesClick edited_df"
  shows
    "main_app pf inp w = save_changes pf u edited_df w \<and>
     jobs_df (session (fst (main_app pf inp w))) = Some edited_df \<and>
     map status (snapshot (fst (main_app pf inp w))) = map status edited_df \<and>
     (snd (main_app pf inp w) = Rerun \<or> snd (main_app pf inp w) = Raised OpenFailed) \<and>
     ((snd (main_app pf inp w) = Rerun) =
        (\<exists>loc. os_locate pf (get_user_data_file u) = Some loc \<and> os_writable pf loc)) \<and>
     (\<forall>loc. os_locate pf (get_user_data_file u) = Some loc \<and> os_writable pf loc \<longrightarrow>
        data_files (files (fst (main_app pf inp w))) loc = Some (map store_row edited_df) \<and>
        map stored_status (map store_row edited_df) = map status edited_df \<and>
        fst (interact pf sha256_hexdigest inp w) = fst (main_app pf inp w)) \<and>
     (snd (main_app pf inp w) = Raised OpenFailed \<longrightarrow>
        files (fst (main_app pf inp w)) = files w)"
proof -
  have m: "main_app pf inp w = save_changes pf u edited_df w"
    using assms(2-4)
    by (simp add: main_app_authenticated[OF assms(1)] applications_section_def
        display_statistics_eq)
  have j: "jobs_df (session (fst (main_app pf inp w))) = Some edited_df"
    unfolding m by (simp add: save_changes_def)
  then have sn: "map status (snapshot (fst (main_app pf inp w))) = map status edited_df"
    by (simp add: snapshot_def)
  have o: "snd (main_app pf inp w) = Rerun \<or> snd (main_app pf inp w) = Raised OpenFailed"
    unfolding m save_changes_def by (rule set_and_save_outcome)
  have r: "(snd (main_app pf inp w) = Rerun) =
        (\<exists>loc. os_locate pf (get_user_data_file u) = Some loc \<and> os_writable pf loc)"
    unfolding m save_changes_def set_and_save_def
    by (auto simp: save_data_def Let_def split: option.splits)
  have l: "data_files (files (fst (main_app pf inp w))) loc = Some (map store_row edited_df) \<and>
        map stored_status (map store_row edited_df) = map status edited_df \<and>
        fst (interact pf sha256_hexdigest inp w) = fst (main_app pf inp w)"
    if "os_locate pf (get_user_data_file u) = Some loc" "os_writable pf loc" for loc
  proof -
    from that have s: "save_data pf (files w) u edited_df =
        Inr ((files w)\<lparr>data_files := (data_files (files w))(loc \<mapsto> map store_row edited_df)\<rparr>)"
      by (simp add: save_data_def)
    then have e: "main_app pf inp w =
        (w\<lparr>session := (session w)\<lparr>jobs_df := Some edited_df\<rparr>,
           files := (files w)\<lparr>data_files := (data_files (files w))(loc \<mapsto> map store_row edited_df)\<rparr>\<rparr>,
         Rerun)"
      unfolding m by (simp add: save_changes_def set_and_save_def)
    from assms(1) have "logged_in (session w)" by (simp add: authenticated_def)
    with e have "main pf sha256_hexdigest inp w = (fst (main_app pf inp w), Rerun)"
      by (simp add: main_def)
    moreover have "authenticated u edited_df (fst (main_app pf inp w))"
      unfolding m save_changes_def using assms(1) by (rule authenticated_set_and_save)
    ultimately have "fst (interact pf sha256_hexdigest inp w) = fst (main_app pf inp w)"
      by (rule interact_rerun)
    moreover have "map stored_status (map store_row edited_df) = map status edited_df"
      by (simp add: store_row_def o_def)
    ultimately show ?thesis using e by simp
  qed
  have x: "files (fst (main_app pf inp w)) = files w" if "snd (main_app pf inp w) = Raised OpenFailed"
    using that set_and_save_Raised[of pf u edited_df w] unfolding m save_changes_def by simp
  from m j sn o r l x show ?thesis by blast
qed

text \<open>
  Instance of C7: an edited frame with a row whose status is \<^verbatim>\<open>Ghosted\<close> is taken over
  and written to the file of \<open>alice\<close>.
\<close>

theorem save_changes_keeps_any_status_witness:
  "status ghosted \<notin> set STATUS_OPTIONS \<and>
   snd (main_app flat_platform (click (SaveChangesClick [acme, ghosted])) alice_world) = Rerun \<and>
   jobs_df (session (fst (main_app flat_platform (click (SaveChangesClick [acme, ghosted]))
      alice_world))) = Some [acme, ghosted] \<and>
   data_files (files (fst (main_app flat_platform (click (SaveChangesClick [acme, ghosted]))
      alice_world))) [''jobs_alice.json''] = Some (map store_row [acme, ghosted])"
proof -
  have f: "apply_filters flat_platform [acme]
             (search_query (click (SaveChangesClick [acme, ghosted])))
             (status_filter (click (SaveChangesClick [acme, ghosted]))) = Inr [acme]"
    by simp
  have g: "status ghosted \<notin> set STATUS_OPTIONS"
    by (simp add: ghosted_def STATUS_OPTIONS_def)
  from save_changes_keeps_any_status[OF authenticated_alice f _ event_click,
      where sha256_hexdigest=example_digest] locate_alice os_writable_flat g
  show ?thesis by blast
qed

text \<open>
  C7 as first stated fails. The file of \<open>alice\<close> holds a row whose status is
  \<^verbatim>\<open>Ghosted\<close>; she logs in and the row is loaded into the session; she changes its package
  in the editor and clicks Save Changes. The run ends in a rerun, not in a rejection, and
  both the frame of the session and what her file loads to have changed to the edited row,
  which still carries the status \<^verbatim>\<open>Ghosted\<close>.
\<close>

theorem save_changes_unknown_status_counterexample:
  "fst (interact flat_platform example_digest (click (LoginSubmit ''alice'' ''pass1234''))
          ghosted_start) = ghosted_world \<and>
   jobs_df (session ghosted_world) = Some [ghosted] \<and>
   load_data flat_platform (files ghosted_world) ''alice'' = Inr [ghosted] \<and>
   status ghosted_edited \<notin> set STATUS_OPTIONS \<and>
   ghosted_edited \<noteq> ghosted \<and>
   snd (main_app flat_platform (click (SaveChangesClick [ghosted_edited])) ghosted_world) = Rerun \<and>
   jobs_df (session (fst (main_app flat_platform (click (SaveChangesClick [ghosted_edited]))
      ghosted_world))) = Some [ghosted_edited] \<and>
   load_data flat_platform (files (fst (main_app flat_platform
      (click (SaveChangesClick [ghosted_edited])) ghosted_world))) ''alice'' = Inr [ghosted_edited]"
proof -
  have m: "main_app flat_platform (click (SaveChangesClick [ghosted_edited])) ghosted_world =
     (ghosted_world\<lparr>session := (session ghosted_world)\<lparr>jobs_df := Some [ghosted_edited]\<rparr>,
        files := (files ghosted_world)\<lparr>data_files := (data_files (files ghosted_world))
                   ([''jobs_alice.json''] \<mapsto> map store_row [ghosted_edited])\<rparr>\<rparr>, Rerun)"
    by (simp add: main_app_authenticated[OF authenticated_ghosted] applications_section_def
        display_statistics_eq save_changes_def set_and_save_def save_data_def locate_alice)
  have l: "load_data flat_platform
     ((files ghosted_world)\<lparr>data_files := (data_files (files ghosted_world))
                   ([''jobs_alice.json''] \<mapsto> map store_row [ghosted_edited])\<rparr>) ''alice'' =
     Inr [ghosted_edited]"
    by (simp add: load_data_def locate_alice parse_row_store_row)
  have j: "jobs_df (session ghosted_world) = Some [ghosted]"
    by (simp add: ghosted_world_def)
  have g: "load_data flat_platform (files ghosted_world) ''alice'' = Inr [ghosted]"
    using load_ghosted by (simp add: ghosted_world_def)
  have d: "ghosted_edited \<noteq> ghosted"
    by (simp add: ghosted_edited_def ghosted_def acme_def)
  from login_ghosted m l j g d ghosted_foreign show ?thesis by simp
qed

subsection \<open>C8: clearing needs a confirmation\<close>

text \<open>
  Claim C8 says that clearing takes two steps, a request and then a confirmation, and
  that after the confirmation the frame is empty and persisted, so that a load returns
  the empty frame. Within one login, with a file that can be written, that is what
  happens (\<open>clear_all_click\<close>, \<open>cancel_click\<close> and \<open>yes_delete_click\<close> above). Two runs
  of the code depart from it.

  The pending request is kept in the session, and logging out does not withdraw it.
  \<open>alice\<close> clicks Clear All and logs out without confirming; \<open>bob\<close> logs in in the same
  browser session. His file still holds his row, the session still carries the request,
  and his page opens with the confirmation dialog although he requested nothing; one
  click on Yes, Delete All empties his frame and his file.

  The frame is emptied before it is saved. Where the file of \<open>alice\<close> cannot be opened for
  writing, her confirmation ends in the exception of \<^verbatim>\<open>open\<close>: the frame of the session is
  empty, her file still loads to her row, and the request is still pending.
\<close>

theorem clear_all_is_not_two_step:
  "interactions flat_platform example_digest
     [click ClearAllClick, click LogoutClick, click (LoginSubmit ''bob'' ''hunter22'')] alice_world =
     pending_world \<and>
   username (session pending_world) = Some ''bob'' \<and>
   show_confirm (session pending_world) \<and>
   load_data flat_platform (files pending_world) ''bob'' = Inr [interviewing] \<and>
   snd (interact flat_platform example_digest (click NoClick) pending_world) =
     MainPage None \<lparr>shown = [interviewing], statistics = metrics_of [interviewing],
                    confirm_dialog = True\<rparr> \<and>
   jobs_df (session (fst (interact flat_platform example_digest (click YesDeleteClick)
      pending_world))) = Some [] \<and>
   load_data flat_platform (files (fst (interact flat_platform example_digest
      (click YesDeleteClick) pending_world))) ''bob'' = Inr [] \<and>
   fst (interact readonly_platform example_digest (click ClearAllClick) alice_world) =
     set_show_confirm True alice_world \<and>
   snd (interact readonly_platform example_digest (click YesDeleteClick)
          (set_show_confirm True alice_world)) = Raised OpenFailed \<and>
   jobs_df (session (fst (interact readonly_platform example_digest (click YesDeleteClick)
          (set_show_confirm True alice_world)))) = Some [] \<and>
   show_confirm (session (fst (interact readonly_platform example_digest (click YesDeleteClick)
          (set_show_confirm True alice_world)))) \<and>
   load_data readonly_platform (files (fst (interact readonly_platform example_digest
          (click YesDeleteClick) (set_show_confirm True alice_world)))) ''alice'' = Inr [acme]"
proof -
  have l: "load_data flat_platform (files pending_world) ''bob'' = Inr [interviewing]"
    by (simp add: pending_world_def load_example_bob)
  have p: "interact flat_platform example_digest (click NoClick) pending_world =
     (pending_world, MainPage None \<lparr>shown = [interviewing], statistics = metrics_of [interviewing],
                    confirm_dialog = True\<rparr>)"
    using page_click[OF authenticated_pending, of flat_platform example_digest]
    by (simp add: interact_def pending_world_def)
  have s: "save_data flat_platform (files pending_world) ''bob'' [] =
     Inr ((files pending_world)\<lparr>data_files := (data_files (files pending_world))
            ([''jobs_bob.json''] \<mapsto> [])\<rparr>)"
    by (simp add: save_data_def locate_bob)
  have y: "fst (interact flat_platform example_digest (click YesDeleteClick) pending_world) =
     pending_world\<lparr>session := (session pending_world)\<lparr>jobs_df := Some [], show_confirm := False\<rparr>,
        files := (files pending_world)\<lparr>data_files := (data_files (files pending_world))
            ([''jobs_bob.json''] \<mapsto> [])\<rparr>\<rparr>"
    by (subst yes_delete_click[OF authenticated_pending _ _ s])
       (simp_all add: pending_world_def)
  have e: "load_data flat_platform
     ((files pending_world)\<lparr>data_files := (data_files (files pending_world))
            ([''jobs_bob.json''] \<mapsto> [])\<rparr>) ''bob'' = Inr []"
    by (simp add: load_data_def locate_bob)
  have first: "interactions flat_platform example_digest
     [click ClearAllClick, click LogoutClick, click (LoginSubmit ''bob'' ''hunter22'')] alice_world =
     pending_world \<and>
   username (session pending_world) = Some ''bob'' \<and>
   show_confirm (session pending_world) \<and>
   load_data flat_platform (files pending_world) ''bob'' = Inr [interviewing] \<and>
   snd (interact flat_platform example_digest (click NoClick) pending_world) =
     MainPage None \<lparr>shown = [interviewing], statistics = metrics_of [interviewing],
                    confirm_dialog = True\<rparr> \<and>
   jobs_df (session (fst (interact flat_platform example_digest (click YesDeleteClick)
      pending_world))) = Some [] \<and>
   load_data flat_platform (files (fst (interact flat_platform example_digest
      (click YesDeleteClick) pending_world))) ''bob'' = Inr []"
    using request_logout_login l p y e by (simp add: pending_world_def)
  have a: "authenticated ''alice'' [acme] (set_show_confirm True alice_world)"
    using authenticated_alice by (rule authenticated_set_show_confirm)
  have f: "interact readonly_platform example_digest (click YesDeleteClick)
             (set_show_confirm True alice_world) =
           ((set_show_confirm True alice_world)
              \<lparr>session := (session (set_show_confirm True alice_world))\<lparr>jobs_df := Some []\<rparr>\<rparr>,
            Raised OpenFailed)"
    by (rule yes_delete_click_fails[OF a _ _ save_readonly])
       (simp_all add: set_show_confirm_def)
  have k: "load_data flat_platform (files alice_world) ''alice'' = Inr [acme]"
    by (simp add: alice_world_def load_example_alice)
  have second: "fst (interact readonly_platform example_digest (click ClearAllClick) alice_world) =
     set_show_confirm True alice_world \<and>
   snd (interact readonly_platform example_digest (click YesDeleteClick)
          (set_show_confirm True alice_world)) = Raised OpenFailed \<and>
   jobs_df (session (fst (interact readonly_platform example_digest (click YesDeleteClick)
          (set_show_confirm True alice_world)))) = Some [] \<and>
   show_confirm (session (fst (interact readonly_platform example_digest (click YesDeleteClick)
          (set_show_confirm True alice_world)))) \<and>
   load_data readonly_platform (files (fst (interact readonly_platform example_digest
          (click YesDeleteClick) (set_show_confirm True alice_world)))) ''alice'' = Inr [acme]"
    using clear_all_click[OF authenticated_alice, of readonly_platform example_digest] f k
    by (simp add: set_show_confirm_def)
  from first second show ?thesis by blast
qed

subsection \<open>C9: the frame belongs to the current user\<close>

text \<open>
  Claim C9 says that in every reachable logged-in state the frame of the session was
  loaded from, or written to, the store of the user logged in. Part of it holds: a frame
  is held only for the user it was loaded for, no frame outlives a logout, and a login
  as another user loads that user's file (\<open>reachable_invariant\<close> and
  \<open>switch_user_reloads\<close> above). But the three handlers that change the frame assign it
  before they save it, and a save that raises leaves the new frame in the session. The
  user \<^verbatim>\<open>a/b\<close> registers and logs in; no file can be opened under that name where
  \<^verbatim>\<open>data/\<close> has no subdirectory. Adding an application ends in the exception of \<^verbatim>\<open>open\<close>;
  the state reached is logged in as \<^verbatim>\<open>a/b\<close> with a frame of one row that was neither
  loaded from the store, which loads to the empty frame and holds no data file, nor
  written to it; and the next run draws the page from that frame.
\<close>

theorem failed_save_leaves_unsaved_frame:
  "interactions flat_platform example_digest
     [click (RegisterSubmit ''a/b'' ''Ab'' ''pass1234'' ''pass1234''),
      click (LoginSubmit ''a/b'' ''pass1234'')] empty_world = slash_world \<and>
   interact flat_platform example_digest
     (click (AddSubmit ''Acme'' ''Engineer'' ''Applied'' \<lparr>year = 2024, month = 1, day = 10\<rparr> []))
     slash_world = (unsaved_world, Raised OpenFailed) \<and>
   reachable flat_platform example_digest unsaved_world \<and>
   logged_in (session unsaved_world) \<and>
   username (session unsaved_world) = Some ''a/b'' \<and>
   jobs_df (session unsaved_world) = Some [acme] \<and>
   load_data flat_platform (files unsaved_world) ''a/b'' = Inr [] \<and>
   data_files (files unsaved_world) = Map.empty \<and>
   interact flat_platform example_digest (click NoClick) unsaved_world =
     (unsaved_world,
      MainPage None \<lparr>shown = [acme], statistics = metrics_of [acme], confirm_dialog = False\<rparr>)"
proof -
  have "reachable flat_platform example_digest empty_world"
    unfolding empty_world_def by (rule reachable.start)
  from reachable_interactions[OF this] register_login_slash
  have r: "reachable flat_platform example_digest slash_world" by metis
  have s: "save_data flat_platform (files slash_world) ''a/b''
             ([] @ [\<lparr>company_name = ''Acme'', job_title = ''Engineer'', status = ''Applied'',
                     applied_date = \<lparr>year = 2024, month = 1, day = 10\<rparr>, package = []\<rparr>]) =
           Inl OpenFailed"
    by (simp add: save_data_def locate_slash)
  have a: "interact flat_platform example_digest
     (click (AddSubmit ''Acme'' ''Engineer'' ''Applied'' \<lparr>year = 2024, month = 1, day = 10\<rparr> []))
     slash_world = (unsaved_world, Raised OpenFailed)"
    by (subst add_click_fails[OF authenticated_slash _ _ s])
       (simp_all add: acme_def unsaved_world_def)
  from reachable.step[OF r, of "click (AddSubmit ''Acme'' ''Engineer'' ''Applied''
      \<lparr>year = 2024, month = 1, day = 10\<rparr> [])"] a
  have r2: "reachable flat_platform example_digest unsaved_world" by simp
  have u: "logged_in (session unsaved_world)" "username (session unsaved_world) = Some ''a/b''"
    "jobs_df (session unsaved_world) = Some [acme]"
    using authenticated_unsaved by (simp_all add: authenticated_def)
  have l: "load_data flat_platform (files unsaved_world) ''a/b'' = Inr []"
    by (simp add: load_data_def locate_slash)
  have d: "data_files (files unsaved_world) = Map.empty"
    by (simp add: unsaved_world_def slash_world_def)
  from page_click[OF authenticated_unsaved, of flat_platform example_digest]
  have p: "interact flat_platform example_digest (click NoClick) unsaved_world =
     (unsaved_world,
      MainPage None \<lparr>shown = [acme], statistics = metrics_of [acme], confirm_dialog = False\<rparr>)"
    by (simp add: interact_def unsaved_world_def slash_world_def)
  from register_login_slash a r2 u l d p show ?thesis by blast
qed

subsection \<open>C10: the display name\<close>

text \<open>
  Claim C10. A successful login stores the record's \<^verbatim>\<open>display_name\<close> as the display
  name of the session, and the username itself when the record has no such entry; the
  login succeeds in both cases.
\<close>

theorem login_display_name:
  assumes "event inp = LoginSubmit user password" "user \<noteq> []" "password \<noteq> []"
    "load_users (files w) user = Some r" "r ''password'' = Some (hash_password sha256_hexdigest password)"
  shows
    "snd (login_page sha256_hexdigest inp w) = Rerun \<and>
     username (session (fst (login_page sha256_hexdigest inp w))) = Some user \<and>
     display_name (session (fst (login_page sha256_hexdigest inp w))) =
       Some (case r ''display_name'' of Some d \<Rightarrow> d | None \<Rightarrow> user)"
  using assms by (simp add: login_page_def login_submit_def Let_def)

text \<open>
  Instance of C10: \<open>bob\<close>, whose record has no display name, and \<open>alice\<close>, whose record
  has one.
\<close>

theorem login_display_name_witness:
  "snd (login_page example_digest (click (LoginSubmit ''bob'' ''hunter22'')) fresh_world) = Rerun \<and>
   display_name (session (fst (login_page example_digest (click (LoginSubmit ''bob'' ''hunter22''))
      fresh_world))) = Some ''bob'' \<and>
   display_name (session (fst (login_page example_digest (click (LoginSubmit ''alice'' ''pass1234''))
      fresh_world))) = Some ''Alice''"
proof -
  have b: "load_users (files fresh_world) ''bob'' = Some bob_record"
    and a: "load_users (files fresh_world) ''alice'' = Some alice_record"
    by (simp_all add: fresh_world_def)
  have pb: "bob_record ''password'' = Some (hash_password example_digest ''hunter22'')"
    and pa: "alice_record ''password'' = Some (hash_password example_digest ''pass1234'')"
    by (simp_all add: bob_record_def alice_record_def hash_password_def)
  have eb: "event (click (LoginSubmit ''bob'' ''hunter22'')) = LoginSubmit ''bob'' ''hunter22''"
    and ea: "event (click (LoginSubmit ''alice'' ''pass1234'')) = LoginSubmit ''alice'' ''pass1234''"
    by (simp_all add: click_def)
  from login_display_name[OF eb _ _ b pb] login_display_name[OF ea _ _ a pa]
  show ?thesis by (simp add: bob_record_def alice_record_def)
qed

end
